theory Spec2Isabelle
  imports Complex_Main
begin

section \<open>JavaScript numbers\<close>

text \<open>
  A JavaScript number is a finite value, one of the two infinities, or NaN. Finite values
  are modelled as reals: rounding and the sign of zero are not represented. Every guard of
  the source that tells these kinds apart (\<^verbatim>\<open>isNaN\<close>, \<^verbatim>\<open>isFinite\<close>, comparisons that are
  false on NaN) is kept as the source writes it.
\<close>

datatype jsnum = Num real | PosInf | NegInf | NaN

definition js_isNaN :: "jsnum \<Rightarrow> bool" where
  "js_isNaN v = (case v of NaN \<Rightarrow> True | _ \<Rightarrow> False)"

definition js_isFinite :: "jsnum \<Rightarrow> bool" where
  "js_isFinite v = (case v of Num _ \<Rightarrow> True | _ \<Rightarrow> False)"

text \<open>\<^verbatim>\<open>a < b\<close>; false as soon as one side is NaN.\<close>

fun js_lt :: "jsnum \<Rightarrow> jsnum \<Rightarrow> bool" where
  "js_lt NaN _ = False"
| "js_lt _ NaN = False"
| "js_lt (Num a) (Num b) = (a < b)"
| "js_lt (Num _) PosInf = True"
| "js_lt (Num _) NegInf = False"
| "js_lt PosInf _ = False"
| "js_lt NegInf NegInf = False"
| "js_lt NegInf _ = True"

definition js_gt :: "jsnum \<Rightarrow> jsnum \<Rightarrow> bool" where
  "js_gt a b = js_lt b a"

text \<open>\<^verbatim>\<open>a >= b\<close>.\<close>

definition js_ge :: "jsnum \<Rightarrow> jsnum \<Rightarrow> bool" where
  "js_ge a b = (\<not> js_isNaN a \<and> \<not> js_isNaN b \<and> \<not> js_lt a b)"

text \<open>\<^verbatim>\<open>a === b\<close> on numbers: NaN equals nothing.\<close>

definition js_eq :: "jsnum \<Rightarrow> jsnum \<Rightarrow> bool" where
  "js_eq a b = (\<not> js_isNaN a \<and> a = b)"

text \<open>\<^verbatim>\<open>Math.max\<close> and \<^verbatim>\<open>Math.min\<close> of two arguments: NaN if either is NaN.\<close>

definition js_max :: "jsnum \<Rightarrow> jsnum \<Rightarrow> jsnum" where
  "js_max a b = (if js_isNaN a \<or> js_isNaN b then NaN else if js_lt a b then b else a)"

definition js_min :: "jsnum \<Rightarrow> jsnum \<Rightarrow> jsnum" where
  "js_min a b = (if js_isNaN a \<or> js_isNaN b then NaN else if js_lt b a then b else a)"

fun js_mul :: "jsnum \<Rightarrow> jsnum \<Rightarrow> jsnum" where
  "js_mul NaN _ = NaN"
| "js_mul _ NaN = NaN"
| "js_mul (Num a) (Num b) = Num (a * b)"
| "js_mul (Num a) PosInf = (if a = 0 then NaN else if 0 < a then PosInf else NegInf)"
| "js_mul (Num a) NegInf = (if a = 0 then NaN else if 0 < a then NegInf else PosInf)"
| "js_mul PosInf (Num b) = (if b = 0 then NaN else if 0 < b then PosInf else NegInf)"
| "js_mul NegInf (Num b) = (if b = 0 then NaN else if 0 < b then NegInf else PosInf)"
| "js_mul PosInf PosInf = PosInf"
| "js_mul PosInf NegInf = NegInf"
| "js_mul NegInf PosInf = NegInf"
| "js_mul NegInf NegInf = PosInf"

fun js_div :: "jsnum \<Rightarrow> jsnum \<Rightarrow> jsnum" where
  "js_div NaN _ = NaN"
| "js_div _ NaN = NaN"
| "js_div (Num a) (Num b) =
     (if b \<noteq> 0 then Num (a / b) else if a = 0 then NaN else if 0 < a then PosInf else NegInf)"
| "js_div (Num _) PosInf = Num 0"
| "js_div (Num _) NegInf = Num 0"
| "js_div PosInf (Num b) = (if 0 \<le> b then PosInf else NegInf)"
| "js_div NegInf (Num b) = (if 0 \<le> b then NegInf else PosInf)"
| "js_div PosInf _ = NaN"
| "js_div NegInf _ = NaN"

fun js_sub :: "jsnum \<Rightarrow> jsnum \<Rightarrow> jsnum" where
  "js_sub NaN _ = NaN"
| "js_sub _ NaN = NaN"
| "js_sub (Num a) (Num b) = Num (a - b)"
| "js_sub (Num _) PosInf = NegInf"
| "js_sub (Num _) NegInf = PosInf"
| "js_sub PosInf PosInf = NaN"
| "js_sub PosInf _ = PosInf"
| "js_sub NegInf NegInf = NaN"
| "js_sub NegInf _ = NegInf"

text \<open>\<^verbatim>\<open>Math.abs\<close>.\<close>

fun js_abs :: "jsnum \<Rightarrow> jsnum" where
  "js_abs (Num a) = Num \<bar>a\<bar>"
| "js_abs PosInf = PosInf"
| "js_abs NegInf = PosInf"
| "js_abs NaN = NaN"


section \<open>The transport controls (components/controls.tsx)\<close>

subsection \<open>Progress display\<close>

text \<open>
  \<^verbatim>\<open>const displayTime = seekingTime !== null ? seekingTime : currentTime\<close>;
  the state \<^verbatim>\<open>seekingTime\<close> is a number or null.
\<close>

definition displayTime :: "jsnum option \<Rightarrow> jsnum \<Rightarrow> jsnum" where
  "displayTime seekingTime currentTime =
     (case seekingTime of Some t \<Rightarrow> t | None \<Rightarrow> currentTime)"

text \<open>
  The percentage shown by the progress bar. \<^verbatim>\<open>currentSong\<close> is a song or null; only its
  truthiness is read.
\<close>

definition displayPercentage ::
  "'song option \<Rightarrow> jsnum \<Rightarrow> jsnum option \<Rightarrow> jsnum \<Rightarrow> jsnum" where
  "displayPercentage currentSong duration seekingTime currentTime =
     (let dt = displayTime seekingTime currentTime in
      if currentSong \<noteq> None \<and> js_gt duration (Num 0) \<and> \<not> js_isNaN duration \<and> \<not> js_isNaN dt
           \<and> js_isFinite duration \<and> js_isFinite dt
      then (let calculated = js_mul (js_div dt duration) (Num 100)
            in js_max (Num 0) (js_min (Num 100) calculated))
      else Num 0)"

text \<open>
  The effect that drops the optimistic seek value once the player has caught up:
  \<^verbatim>\<open>Math.abs(currentTime - seekingTime) < 0.5\<close>.
\<close>

definition caught_up :: "jsnum \<Rightarrow> jsnum \<Rightarrow> bool" where
  "caught_up currentTime seekingTime =
     js_lt (js_abs (js_sub currentTime seekingTime)) (Num (1 / 2))"

definition seeking_effect :: "jsnum \<Rightarrow> jsnum option \<Rightarrow> jsnum option" where
  "seeking_effect currentTime seekingTime =
     (case seekingTime of
        None \<Rightarrow> None
      | Some s \<Rightarrow> if caught_up currentTime s then None else Some s)"


subsection \<open>The external players\<close>

text \<open>
  The four players are libraries outside the repository. What the source relies on is
  recorded here: a player has a position and a media length in its own unit, and it is
  paused or not. YouTube, Vimeo and the audio element count seconds; the SoundCloud widget
  counts milliseconds (SoundCloudPlayer: \<^verbatim>\<open>seekTo(currentTime * 1000)\<close>,
  \<^verbatim>\<open>e.currentPosition / 1000\<close>, \<^verbatim>\<open>duration / 1000\<close>).
  A seek moves the position; the flag \<open>pauses\<close> says whether this player pauses itself
  while seeking. Calls that the source wraps in \<^verbatim>\<open>try\<close> do not throw here.
\<close>

record player =
  position :: jsnum
  is_paused :: bool
  media_duration :: jsnum

definition player_seek :: "bool \<Rightarrow> jsnum \<Rightarrow> player \<Rightarrow> player" where
  "player_seek pauses t p = p\<lparr>position := t, is_paused := (is_paused p \<or> pauses)\<rparr>"

definition player_play :: "player \<Rightarrow> player" where
  "player_play p = p\<lparr>is_paused := False\<rparr>"

definition player_pause :: "player \<Rightarrow> player" where
  "player_pause p = p\<lparr>is_paused := True\<rparr>"

text \<open>\<^verbatim>\<open>player.getPlayerState()\<close> of YouTube: 1 is playing, 2 is paused.\<close>

definition getPlayerState :: "player \<Rightarrow> nat" where
  "getPlayerState p = (if is_paused p then 2 else 1)"

text \<open>The position of a SoundCloud widget in seconds, as its progress event reports it.\<close>

definition soundcloud_seconds :: "player \<Rightarrow> jsnum" where
  "soundcloud_seconds w = js_div (position w) (Num 1000)"

subsection \<open>handleSeek\<close>

text \<open>
  The global handles \<^verbatim>\<open>window.__youtubePlayer\<close> (with \<^verbatim>\<open>window.YT\<close>), \<^verbatim>\<open>window.__vimeoPlayer\<close>,
  \<^verbatim>\<open>window.__mp3AudioRef.current\<close> and \<^verbatim>\<open>window.__soundcloudWidget\<close>; each is present or not.
\<close>

record handles =
  youtubePlayer :: "player option"
  vimeoPlayer :: "player option"
  mp3Audio :: "player option"
  soundcloudWidget :: "player option"

text \<open>The four branches of \<^verbatim>\<open>handleSeek\<close>, one per handle, in the order of the source.\<close>

definition seek_youtube :: "bool \<Rightarrow> bool \<Rightarrow> jsnum \<Rightarrow> player \<Rightarrow> player" where
  "seek_youtube pauses wasPlaying newTime player =
     (let p1 = player_seek pauses newTime player
      in if wasPlaying \<and> getPlayerState p1 \<noteq> 1 then player_play p1 else p1)"

definition seek_vimeo :: "bool \<Rightarrow> bool \<Rightarrow> jsnum \<Rightarrow> player \<Rightarrow> player" where
  "seek_vimeo pauses wasPlaying newTime player =
     (let p1 = player_seek pauses newTime player
      in if wasPlaying then (if is_paused p1 then player_play p1 else p1) else p1)"

definition seek_mp3 :: "bool \<Rightarrow> bool \<Rightarrow> jsnum \<Rightarrow> player \<Rightarrow> player" where
  "seek_mp3 pauses wasPlaying newTime audio =
     (let a1 = player_seek pauses newTime audio
      in if wasPlaying \<and> is_paused a1 then player_play a1 else a1)"

text \<open>
  In the SoundCloud branch the callback parameter \<^verbatim>\<open>duration\<close> is the widget's own length,
  which shadows the store's \<^verbatim>\<open>duration\<close>:
  \<^verbatim>\<open>widget.getDuration((duration) => { const seekPosition = (newTime / duration) * 1000; ...\<close>
\<close>

definition seek_soundcloud :: "bool \<Rightarrow> bool \<Rightarrow> jsnum \<Rightarrow> player \<Rightarrow> player" where
  "seek_soundcloud pauses wasPlaying newTime widget =
     (let duration = media_duration widget;
          seekPosition = js_mul (js_div newTime duration) (Num 1000);
          w1 = player_seek pauses seekPosition widget
      in if wasPlaying then player_play w1 else w1)"

text \<open>
  \<^verbatim>\<open>handleSeek\<close>: \<open>x\<close> is \<^verbatim>\<open>e.clientX - rect.left\<close> and \<open>width\<close> is \<^verbatim>\<open>rect.width\<close>. The result is
  the value passed to \<^verbatim>\<open>setSeekingTime\<close> and to the store's \<^verbatim>\<open>seekTo\<close> (none when the
  function returns at once), and the handles after the calls.

  The assignment \<^verbatim>\<open>audio.currentTime = newTime\<close> is not inside a \<^verbatim>\<open>try\<close>, and the audio element
  refuses a value that is not finite by throwing: then the audio element keeps its
  position and the SoundCloud branch below it is not reached.
\<close>

definition handleSeek ::
  "bool \<Rightarrow> jsnum \<Rightarrow> bool \<Rightarrow> jsnum \<Rightarrow> jsnum \<Rightarrow> handles \<Rightarrow> jsnum option \<times> handles" where
  "handleSeek pauses duration isPlaying x width h =
     (if js_eq duration (Num 0) then (None, h)
      else
        (let percentage = js_max (Num 0) (js_min (Num 100) (js_mul (js_div x width) (Num 100)));
             newTime = js_mul (js_div percentage (Num 100)) duration;
             wasPlaying = isPlaying;
             audio_throws = (mp3Audio h \<noteq> None \<and> \<not> js_isFinite newTime)
         in (Some newTime,
             h\<lparr>youtubePlayer := map_option (seek_youtube pauses wasPlaying newTime) (youtubePlayer h),
               vimeoPlayer := map_option (seek_vimeo pauses wasPlaying newTime) (vimeoPlayer h),
               mp3Audio :=
                 (if audio_throws then mp3Audio h
                  else map_option (seek_mp3 pauses wasPlaying newTime) (mp3Audio h)),
               soundcloudWidget :=
                 (if audio_throws then soundcloudWidget h
                  else map_option (seek_soundcloud pauses wasPlaying newTime)
                         (soundcloudWidget h))\<rparr>)))"


section \<open>The SoundCloud adapter (SoundCloudPlayer)\<close>

text \<open>
  The props of the component that the handlers close over. The three callbacks are
  optional (\<^verbatim>\<open>onStateChange?.(...)\<close>): each flag says whether the parent passed one.
\<close>

record sc_props =
  song_url :: string
  onStateChange :: bool
  onTimeUpdate :: bool
  onDurationChange :: bool
  prop_volume :: jsnum
  prop_isPlaying :: bool
  prop_currentTime :: jsnum

text \<open>
  What a handler does to the rest of the application: the calls of the parent's callbacks
  and of the store's \<^verbatim>\<open>forward\<close>, in order.
\<close>

datatype emission =
    OnStateChange bool
  | OnTimeUpdate jsnum
  | OnDurationChange jsnum
  | StoreForward

definition call_onStateChange :: "sc_props \<Rightarrow> bool \<Rightarrow> emission list" where
  "call_onStateChange props b = (if onStateChange props then [OnStateChange b] else [])"

definition call_onTimeUpdate :: "sc_props \<Rightarrow> jsnum \<Rightarrow> emission list" where
  "call_onTimeUpdate props t = (if onTimeUpdate props then [OnTimeUpdate t] else [])"

definition call_onDurationChange :: "sc_props \<Rightarrow> jsnum \<Rightarrow> emission list" where
  "call_onDurationChange props d = (if onDurationChange props then [OnDurationChange d] else [])"

text \<open>
  The reuse branch of the mount effect (an existing widget for the same URL): volume is
  not part of the player record; the seek and the play or pause are.
\<close>

definition reuse_widget :: "bool \<Rightarrow> sc_props \<Rightarrow> player \<Rightarrow> player" where
  "reuse_widget pauses props existingWidget =
     (let w1 = (if js_gt (prop_currentTime props) (Num 0)
                then player_seek pauses (js_mul (prop_currentTime props) (Num 1000)) existingWidget
                else existingWidget)
      in if prop_isPlaying props then player_play w1 else player_pause w1)"

text \<open>
  The READY handler: it publishes the widget's URL in \<^verbatim>\<open>window.__soundcloudUrl\<close> (the first
  component of the result), reports the duration, seeks and plays.
\<close>

definition on_READY ::
  "bool \<Rightarrow> sc_props \<Rightarrow> player \<Rightarrow> string option \<times> emission list \<times> player" where
  "on_READY pauses props widget =
     (let duration = media_duration widget;
          reported = (if js_gt duration (Num 0) \<and> js_isFinite duration
                      then call_onDurationChange props (js_div duration (Num 1000)) else []);
          w1 = (if js_gt (prop_currentTime props) (Num 0)
                then player_seek pauses (js_mul (prop_currentTime props) (Num 1000)) widget
                else widget);
          w2 = (if prop_isPlaying props then player_play w1 else w1)
      in (Some (song_url props), reported, w2))"

text \<open>
  The PLAY_PROGRESS handler. \<open>soundcloudUrl\<close> is \<^verbatim>\<open>window.__soundcloudUrl\<close> when the event
  fires (absent while no widget was ready), \<open>currentPosition\<close> is \<^verbatim>\<open>e.currentPosition\<close>, and
  \<open>duration\<close> is what \<^verbatim>\<open>getDuration\<close> hands to its callback. The callback compares the
  local constant \<^verbatim>\<open>currentUrl\<close> again, not the global.
\<close>

definition on_PLAY_PROGRESS ::
  "sc_props \<Rightarrow> string option \<Rightarrow> jsnum \<Rightarrow> jsnum \<Rightarrow> emission list" where
  "on_PLAY_PROGRESS props soundcloudUrl currentPosition duration =
     (let currentUrl = soundcloudUrl
      in if currentUrl = Some (song_url props)
         then (let time = js_div currentPosition (Num 1000)
               in (if js_ge time (Num 0) \<and> js_isFinite time
                   then call_onTimeUpdate props time else [])
                  @ (if currentUrl = Some (song_url props) \<and> js_gt duration (Num 0)
                          \<and> js_isFinite duration
                     then call_onDurationChange props (js_div duration (Num 1000)) else []))
         else [])"

text \<open>
  The FINISHED handler. It reads nothing but the store: \<open>currentIndex\<close> is
  \<^verbatim>\<open>store.currentIndex\<close> and \<open>songs_length\<close> is \<^verbatim>\<open>store.songs.length\<close>. The parameter
  \<open>soundcloudUrl\<close> is the global of the PLAY_PROGRESS handler; the source does not read it
  here, and neither does the definition.
\<close>

definition on_FINISHED :: "sc_props \<Rightarrow> string option \<Rightarrow> int \<Rightarrow> nat \<Rightarrow> emission list" where
  "on_FINISHED props soundcloudUrl currentIndex songs_length =
     call_onStateChange props False
     @ (if currentIndex < int songs_length - 1 then [StoreForward] else [])"

text \<open>
  The handlers bound on the widget. \<^verbatim>\<open>initializePlayer\<close> takes the widget of the iframe
  (\<^verbatim>\<open>window.SC.Widget(iframeRef.current)\<close>, one widget per iframe) and binds a READY, a
  PLAY_PROGRESS and a FINISHED handler, each closing over the props of the render that ran
  the effect; the cleanup of the effect unbinds nothing. The list holds the props of the
  handlers bound so far, oldest first. \<open>available\<close> is \<^verbatim>\<open>iframeRef.current && window.SC\<close>.
\<close>

type_synonym bindings = "sc_props list"

definition initializePlayer :: "bool \<Rightarrow> sc_props \<Rightarrow> bindings \<Rightarrow> bindings" where
  "initializePlayer available props bound = (if \<not> available then bound else bound @ [props])"

text \<open>
  One run of the mount effect, which runs again whenever \<^verbatim>\<open>song.url\<close> or \<^verbatim>\<open>currentTime\<close>
  changes: with a published widget for the same URL it binds nothing, otherwise it calls
  \<^verbatim>\<open>initializePlayer\<close>, after loading the script if need be. \<open>existingWidget\<close> says whether
  \<^verbatim>\<open>window.__soundcloudWidget\<close> is set and \<open>existingUrl\<close> is \<^verbatim>\<open>window.__soundcloudUrl\<close>.
\<close>

definition mount_effect ::
  "bool \<Rightarrow> string option \<Rightarrow> bool \<Rightarrow> sc_props \<Rightarrow> bindings \<Rightarrow> bindings" where
  "mount_effect existingWidget existingUrl available props bound =
     (if existingWidget \<and> existingUrl = Some (song_url props) then bound
      else initializePlayer available props bound)"

text \<open>
  Modelled from the spec: the store's \<^verbatim>\<open>forward\<close> (\<^verbatim>\<open>@/lib/store\<close>), which is not among the
  sources. The specification calls it \<^verbatim>\<open>advance()\<close>: it "moves currentIndex+1; if beyond the
  end, it is a no-op".
\<close>

definition forward :: "int \<Rightarrow> nat \<Rightarrow> int" where
  "forward currentIndex songs_length =
     (if currentIndex + 1 < int songs_length then currentIndex + 1 else currentIndex)"

text \<open>
  One FINISHED event of the widget, which it sends when a playthrough reaches the end of
  the media: every bound handler runs, in the order of binding, and each reads the store
  as the handlers before it have left it. The result is what the handlers emit and the
  store's index afterwards.
\<close>

fun fire_FINISHED :: "bindings \<Rightarrow> string option \<Rightarrow> int \<Rightarrow> nat \<Rightarrow> emission list \<times> int" where
  "fire_FINISHED [] soundcloudUrl currentIndex songs_length = ([], currentIndex)"
| "fire_FINISHED (props # rest) soundcloudUrl currentIndex songs_length =
     (let emitted = on_FINISHED props soundcloudUrl currentIndex songs_length;
          index1 = (if StoreForward \<in> set emitted then forward currentIndex songs_length
                    else currentIndex);
          later = fire_FINISHED rest soundcloudUrl index1 songs_length
      in (emitted @ fst later, snd later))"


section \<open>JavaScript values read from the network\<close>

text \<open>
  A parsed JSON document, with \<open>JUndefined\<close> for the value of a property that is not there.
  An object lists each key once.
\<close>

datatype json =
    JUndefined
  | JNull
  | JBool bool
  | JNum real
  | JStr string
  | JArr "json list"
  | JObj "(string \<times> json) list"

definition truthy :: "json \<Rightarrow> bool" where
  "truthy v =
     (case v of
        JUndefined \<Rightarrow> False
      | JNull \<Rightarrow> False
      | JBool b \<Rightarrow> b
      | JNum n \<Rightarrow> n \<noteq> 0
      | JStr s \<Rightarrow> s \<noteq> []
      | JArr _ \<Rightarrow> True
      | JObj _ \<Rightarrow> True)"

text \<open>
  \<^verbatim>\<open>v.k\<close> for a value that is neither null nor undefined (there the read throws, which the
  callers below write out). Only the keys \<^verbatim>\<open>error\<close>, \<^verbatim>\<open>data\<close>, \<^verbatim>\<open>children\<close> and \<^verbatim>\<open>after\<close> are
  read, and primitives and arrays have none of them.
\<close>

definition js_get :: "json \<Rightarrow> string \<Rightarrow> json" where
  "js_get v k =
     (case v of
        JObj kvs \<Rightarrow> (case map_of kvs k of Some x \<Rightarrow> x | None \<Rightarrow> JUndefined)
      | _ \<Rightarrow> JUndefined)"

definition isArray :: "json \<Rightarrow> bool" where
  "isArray v = (case v of JArr _ \<Rightarrow> True | _ \<Rightarrow> False)"

definition elements :: "json \<Rightarrow> json list" where
  "elements v = (case v of JArr xs \<Rightarrow> xs | _ \<Rightarrow> [])"

text \<open>\<^verbatim>\<open>typeof v === 'object'\<close>: objects, arrays and null.\<close>

definition typeof_object :: "json \<Rightarrow> bool" where
  "typeof_object v = (case v of JNull \<Rightarrow> True | JArr _ \<Rightarrow> True | JObj _ \<Rightarrow> True | _ \<Rightarrow> False)"

text \<open>
  A thrown error, with the two fields the \<^verbatim>\<open>catch\<close> blocks read, \<^verbatim>\<open>error.name\<close> and
  \<^verbatim>\<open>error.code\<close>, and with \<^verbatim>\<open>error.cause.code\<close>, which no \<^verbatim>\<open>catch\<close> block reads. The message is
  not modelled: no branch depends on it. \<^verbatim>\<open>error instanceof SyntaxError\<close> is read off the
  name.
\<close>

record js_error =
  err_name :: string
  err_code :: "string option"
  err_cause_code :: "string option"

definition plain_error :: js_error where
  "plain_error = \<lparr>err_name = ''Error'', err_code = None, err_cause_code = None\<rparr>"

definition type_error :: js_error where
  "type_error = \<lparr>err_name = ''TypeError'', err_code = None, err_cause_code = None\<rparr>"

definition syntax_error :: js_error where
  "syntax_error = \<lparr>err_name = ''SyntaxError'', err_code = None, err_cause_code = None\<rparr>"

definition abort_error :: js_error where
  "abort_error = \<lparr>err_name = ''AbortError'', err_code = None, err_cause_code = None\<rparr>"

text \<open>
  The error with which the \<^verbatim>\<open>fetch\<close> of the server runtime rejects when no connection to the
  host can be made (the name cannot be resolved, the connection is refused): a TypeError
  "fetch failed" that has no \<^verbatim>\<open>code\<close> of its own and carries the system error as its
  \<^verbatim>\<open>cause\<close>, with the code there.
\<close>

definition fetch_failed :: "string \<Rightarrow> js_error" where
  "fetch_failed code = \<lparr>err_name = ''TypeError'', err_code = None, err_cause_code = Some code\<rparr>"

text \<open>
  An HTTP response: its status, and its body parsed as JSON (\<open>None\<close> when the body is not
  JSON, so that \<^verbatim>\<open>response.json()\<close> rejects with a SyntaxError). A \<^verbatim>\<open>fetch\<close> settles by
  rejecting with an error or by resolving with a response.
\<close>

record http_response =
  resp_status :: nat
  resp_json :: "json option"

definition response_ok :: "http_response \<Rightarrow> bool" where
  "response_ok r = (200 \<le> resp_status r \<and> resp_status r \<le> 299)"

datatype fetch_outcome = Rejects js_error | Resolves http_response


section \<open>The feed hook (useRedditMusic)\<close>

text \<open>The values of the playlist store that the hook reads when it renders.\<close>

record store_view =
  selectedSubreddits :: "string list"
  sortMethod :: string
  topMethod :: string
  searchQuery :: string

text \<open>A call of one of the two fetch functions, as \<^verbatim>\<open>fetchMusic\<close> and the retry button make it.\<close>

datatype fetch_call =
    FetchSearch string "string option"
  | FetchMusicForSubreddits "string list" "string option"

record button =
  btn_text :: string
  btn_className :: string
  btn_callback :: fetch_call

record message =
  msg_type :: string
  msg_text :: string
  msg_buttons :: "button list"

text \<open>
  The store itself (\<^verbatim>\<open>@/lib/store\<close>) is not among the sources. The hook's effect on it is
  the sequence of its calls of the store's setters.
\<close>

datatype 'song store_call =
    SetLoading bool
  | SetSongs "'song list"
  | AddSongs "'song list"
  | SetAfter json
  | AddMessage message

text \<open>How a call of a fetch function ends.\<close>

datatype 'song completion = Returns "'song list" | Throws js_error

text \<open>
  The hook's own state: \<^verbatim>\<open>abortControllerRef.current\<close>, and which controllers have been
  aborted. Controllers are numbered in the order of their creation.
\<close>

record hook =
  abortControllerRef :: "nat option"
  aborted :: "nat set"
  next_controller :: nat

text \<open>\<^verbatim>\<open>if (after)\<close> for the optional string parameter.\<close>

definition after_given :: "string option \<Rightarrow> bool" where
  "after_given after = (case after of None \<Rightarrow> False | Some a \<Rightarrow> a \<noteq> [])"

fun join_with :: "string \<Rightarrow> string list \<Rightarrow> string" where
  "join_with sep [] = []"
| "join_with sep [x] = x"
| "join_with sep (x # y # zs) = x @ sep @ join_with sep (y # zs)"

text \<open>
  The request a fetch function builds: the path, and the parameters appended to the
  \<^verbatim>\<open>URLSearchParams\<close> in order (their percent-encoding into the query string is left out).
\<close>

record request =
  req_url :: string
  req_params :: "(string \<times> string) list"

definition common_params :: "store_view \<Rightarrow> string option \<Rightarrow> (string \<times> string) list" where
  "common_params sv after =
     (if sortMethod sv = ''top'' then [(''t'', topMethod sv)] else [])
     @ (case after of None \<Rightarrow> [] | Some a \<Rightarrow> if a \<noteq> [] then [(''after'', a)] else [])
     @ [(''limit'', ''100'')]"

definition search_request :: "store_view \<Rightarrow> string \<Rightarrow> string option \<Rightarrow> request" where
  "search_request sv query after =
     \<lparr>req_url = ''/api/get/search.json'', req_params = (''q'', query) # common_params sv after\<rparr>"

definition listing_request :: "store_view \<Rightarrow> string list \<Rightarrow> string option \<Rightarrow> request" where
  "listing_request sv subreddits after =
     (let subredditString = join_with ''+'' subreddits
      in \<lparr>req_url = ''/api/get/r/'' @ subredditString @ ''/'' @ sortMethod sv @ ''.json'',
          req_params = common_params sv after\<rparr>)"

text \<open>
  The first lines of both fetch functions: abort the controller in the ref, if any, make a
  new one and put it in the ref. The result is the new state and the new controller.
\<close>

definition begin_request :: "hook \<Rightarrow> hook \<times> nat" where
  "begin_request h =
     (let h1 = (case abortControllerRef h of
                  Some c \<Rightarrow> h\<lparr>aborted := insert c (aborted h)\<rparr>
                | None \<Rightarrow> h);
          abortController = next_controller h1
      in (h1\<lparr>abortControllerRef := Some abortController,
             next_controller := Suc abortController\<rparr>,
          abortController))"

text \<open>
  A fetch function up to its \<^verbatim>\<open>await fetch(...)\<close>: the new hook state, the controller whose
  signal the request carries, the store calls made, and the request sent.
\<close>

definition fetchSearch_start ::
  "store_view \<Rightarrow> hook \<Rightarrow> string \<Rightarrow> string option
     \<Rightarrow> hook \<times> nat \<times> 'song store_call list \<times> request" where
  "fetchSearch_start sv h query after =
     (let (h1, abortController) = begin_request h
      in (h1, abortController, [SetLoading True], search_request sv query after))"

definition fetchMusicForSubreddits_start ::
  "store_view \<Rightarrow> hook \<Rightarrow> string list \<Rightarrow> string option
     \<Rightarrow> hook \<times> nat \<times> 'song store_call list \<times> request" where
  "fetchMusicForSubreddits_start sv h subreddits after =
     (let (h1, abortController) = begin_request h
      in (h1, abortController, [SetLoading True], listing_request sv subreddits after))"

text \<open>
  \<^verbatim>\<open>filterPlayableSongs\<close> and \<^verbatim>\<open>parseSong\<close> (\<^verbatim>\<open>@/lib/utils/song-parser\<close>) are not among the
  sources; they are the parameters \<open>flt\<close> and \<open>parse\<close>. \<open>parse\<close> gives \<open>None\<close> where
  \<^verbatim>\<open>parseSong\<close> throws or returns null; reading \<^verbatim>\<open>item.data\<close> of a null item throws too, and
  the \<^verbatim>\<open>catch\<close> inside the \<^verbatim>\<open>map\<close> turns all of these into a dropped item.
\<close>

definition parse_item :: "(json \<Rightarrow> 'song option) \<Rightarrow> json \<Rightarrow> 'song option" where
  "parse_item parse item =
     (case item of JNull \<Rightarrow> None | JUndefined \<Rightarrow> None | _ \<Rightarrow> parse (js_get item ''data''))"

definition parse_children ::
  "(json list \<Rightarrow> json list) \<Rightarrow> (json \<Rightarrow> 'song option) \<Rightarrow> json list \<Rightarrow> 'song list" where
  "parse_children flt parse children = List.map_filter (parse_item parse) (flt children)"

text \<open>
  The body of the \<^verbatim>\<open>try\<close> block from the point where the fetch settles; the two fetch
  functions have the same text there. \<open>signal_aborted\<close> is \<^verbatim>\<open>abortController.signal.aborted\<close>
  at that point. The result is the store calls made, and the songs returned or the error
  thrown. Reading the body (\<^verbatim>\<open>response.text()\<close>, \<^verbatim>\<open>response.json()\<close>) is taken as immediate.
\<close>

definition try_body ::
  "(json list \<Rightarrow> json list) \<Rightarrow> (json \<Rightarrow> 'song option) \<Rightarrow> bool \<Rightarrow> string option
     \<Rightarrow> fetch_outcome \<Rightarrow> 'song store_call list \<times> (js_error + 'song list)" where
  "try_body flt parse signal_aborted after outcome =
     (case outcome of
        Rejects e \<Rightarrow> ([], Inl e)
      | Resolves response \<Rightarrow>
          if signal_aborted then ([], Inr [])
          else if \<not> response_ok response then ([], Inl plain_error)
          else
            (case resp_json response of
               None \<Rightarrow> ([], Inl syntax_error)
             | Some data \<Rightarrow>
                 if data = JNull then ([], Inl type_error)
                 else if truthy (js_get data ''error'') then ([], Inl plain_error)
                 else if \<not> truthy data \<or> \<not> truthy (js_get data ''data'')
                          \<or> \<not> isArray (js_get (js_get data ''data'') ''children'')
                 then ([], Inr [])
                 else
                   (let parsedSongs =
                          parse_children flt parse
                            (elements (js_get (js_get data ''data'') ''children''));
                        a = js_get (js_get data ''data'') ''after'';
                        redditAfter = (if truthy a then a else JNull)
                    in ([if after_given after then AddSongs parsedSongs
                         else SetSongs parsedSongs,
                         SetAfter redditAfter],
                        Inr parsedSongs))))"

text \<open>The \<^verbatim>\<open>finally\<close> block of both functions.\<close>

definition finally_block :: "hook \<Rightarrow> nat \<Rightarrow> hook \<times> 'song store_call list" where
  "finally_block h abortController =
     (if abortController \<notin> aborted h
      then (h\<lparr>abortControllerRef := None\<rparr>, [SetLoading False])
      else (h, []))"

text \<open>
  \<^verbatim>\<open>fetchSearch\<close> from the point where its fetch settles: \<open>h\<close> is the hook state at that
  moment and \<open>abortController\<close> the controller this call made.
\<close>

definition fetchSearch_settle ::
  "(json list \<Rightarrow> json list) \<Rightarrow> (json \<Rightarrow> 'song option) \<Rightarrow> hook \<Rightarrow> nat \<Rightarrow> string
     \<Rightarrow> string option \<Rightarrow> fetch_outcome \<Rightarrow> hook \<times> 'song store_call list \<times> 'song completion" where
  "fetchSearch_settle flt parse h abortController query after outcome =
     (let (calls, r) = try_body flt parse (abortController \<in> aborted h) after outcome;
          (h1, final_calls) = finally_block h abortController
      in case r of
           Inr songs \<Rightarrow> (h1, calls @ final_calls, Returns songs)
         | Inl error \<Rightarrow>
             if err_name error = ''AbortError'' then (h1, calls @ final_calls, Returns [])
             else (h1, calls @ final_calls, Throws error))"

text \<open>The message of the \<^verbatim>\<open>catch\<close> block of \<^verbatim>\<open>fetchMusicForSubreddits\<close>.\<close>

definition failed_message :: "string list \<Rightarrow> string option \<Rightarrow> message" where
  "failed_message subreddits after =
     \<lparr>msg_type = ''error'',
      msg_text = ''Failed to load music from Reddit.'',
      msg_buttons =
        [\<lparr>btn_text = ''Try again'', btn_className = ''yellow'',
          btn_callback = FetchMusicForSubreddits subreddits after\<rparr>]\<rparr>"

definition fetchMusicForSubreddits_settle ::
  "(json list \<Rightarrow> json list) \<Rightarrow> (json \<Rightarrow> 'song option) \<Rightarrow> hook \<Rightarrow> nat \<Rightarrow> string list
     \<Rightarrow> string option \<Rightarrow> fetch_outcome \<Rightarrow> hook \<times> 'song store_call list \<times> 'song completion" where
  "fetchMusicForSubreddits_settle flt parse h abortController subreddits after outcome =
     (let (calls, r) = try_body flt parse (abortController \<in> aborted h) after outcome;
          (h1, final_calls) = finally_block h abortController
      in case r of
           Inr songs \<Rightarrow> (h1, calls @ final_calls, Returns songs)
         | Inl error \<Rightarrow>
             if err_name error = ''AbortError'' then (h1, calls @ final_calls, Returns [])
             else (h1,
                   calls @ [AddMessage (failed_message subreddits after)] @ final_calls,
                   Throws error))"

text \<open>\<^verbatim>\<open>fetchMusic\<close>: which fetch function it calls, and with what.\<close>

definition fetchMusic :: "store_view \<Rightarrow> string option \<Rightarrow> fetch_call" where
  "fetchMusic sv after =
     (if searchQuery sv \<noteq> [] then FetchSearch (searchQuery sv) after
      else if length (selectedSubreddits sv) = 0
           then FetchMusicForSubreddits [''listentothis''] after
           else FetchMusicForSubreddits (selectedSubreddits sv) after)"

definition start_call ::
  "store_view \<Rightarrow> hook \<Rightarrow> fetch_call \<Rightarrow> hook \<times> nat \<times> 'song store_call list \<times> request" where
  "start_call sv h c =
     (case c of
        FetchSearch query after \<Rightarrow> fetchSearch_start sv h query after
      | FetchMusicForSubreddits subreddits after \<Rightarrow>
          fetchMusicForSubreddits_start sv h subreddits after)"


section \<open>Initialisation from the URL (useInitializeApp)\<close>

text \<open>
  Strings are byte strings here: \<^verbatim>\<open>trim\<close> removes the ASCII white space (tab, line feed,
  vertical tab, form feed, carriage return, space) and \<^verbatim>\<open>toLowerCase\<close> maps the ASCII capitals.
\<close>

definition is_space :: "char \<Rightarrow> bool" where
  "is_space c = (of_char c \<in> {9, 10, 11, 12, 13, 32 :: nat})"

definition trim :: "string \<Rightarrow> string" where
  "trim s = rev (dropWhile is_space (rev (dropWhile is_space s)))"

definition lower_char :: "char \<Rightarrow> char" where
  "lower_char c =
     (let n = (of_char c :: nat) in if 65 \<le> n \<and> n \<le> 90 then char_of (n + 32) else c)"

definition toLowerCase :: "string \<Rightarrow> string" where
  "toLowerCase s = map lower_char s"

text \<open>\<^verbatim>\<open>s.split(sep)\<close> for a separator of one character: never an empty list.\<close>

fun split_on :: "char \<Rightarrow> string \<Rightarrow> string list" where
  "split_on sep [] = [[]]"
| "split_on sep (c # cs) =
     (if c = sep then [] # split_on sep cs
      else (case split_on sep cs of
              w # ws \<Rightarrow> (c # w) # ws
            | [] \<Rightarrow> [[c]]))"

text \<open>\<^verbatim>\<open>.split("+").map((s) => s.trim().toLowerCase()).filter(Boolean)\<close>\<close>

definition parse_subs :: "string \<Rightarrow> string list" where
  "parse_subs s = filter (\<lambda>w. w \<noteq> []) (map (\<lambda>w. toLowerCase (trim w)) (split_on CHR ''+'' s))"

text \<open>
  \<^verbatim>\<open>pathname.match(/^\/r\/(.+)$/)\<close>: the group, when the path is \<^verbatim>\<open>/r/\<close> followed by at least
  one character and no line terminator (line feed or carriage return).
\<close>

definition path_match :: "string \<Rightarrow> string option" where
  "path_match pathname =
     (if take 3 pathname = ''/r/'' \<and> drop 3 pathname \<noteq> []
           \<and> list_all (\<lambda>c. of_char c \<notin> {10, 13 :: nat}) (drop 3 pathname)
      then Some (drop 3 pathname) else None)"

text \<open>The calls the effect makes: the store's setter, and \<^verbatim>\<open>fetchFromSubreddits\<close> of the API hook.\<close>

datatype init_call = SetSelectedSubreddits "string list" | FetchFromSubreddits "string list"

text \<open>
  The mount effect. \<open>hasInitialized\<close> is the ref, \<open>rParam\<close> is \<^verbatim>\<open>searchParams.get("r")\<close> (null
  when the parameter is absent) and \<open>saved\<close> is the store's \<^verbatim>\<open>selectedSubreddits\<close>. The result
  is the ref afterwards and the calls made. \<open>path_subs\<close> and \<open>query_subs\<close> are the lists
  \<^verbatim>\<open>subs\<close> of the first and of the second block, empty where the block is skipped.
\<close>

definition path_subs :: "string \<Rightarrow> string list" where
  "path_subs pathname = (case path_match pathname of Some g \<Rightarrow> parse_subs g | None \<Rightarrow> [])"

definition query_subs :: "string option \<Rightarrow> string list" where
  "query_subs rParam =
     (case rParam of Some r \<Rightarrow> if r \<noteq> [] then parse_subs r else [] | None \<Rightarrow> [])"

definition initialize_from_url ::
  "bool \<Rightarrow> string \<Rightarrow> string option \<Rightarrow> string list \<Rightarrow> bool \<times> init_call list" where
  "initialize_from_url hasInitialized pathname rParam saved =
     (if hasInitialized then (hasInitialized, [])
      else if length (path_subs pathname) > 0
      then (True, [SetSelectedSubreddits (path_subs pathname),
                   FetchFromSubreddits (path_subs pathname)])
      else if length (query_subs rParam) > 0
      then (True, [SetSelectedSubreddits (query_subs rParam),
                   FetchFromSubreddits (query_subs rParam)])
      else if length saved > 0
      then (True, [FetchFromSubreddits saved])
      else (let defaultSubs = [''listentothis'']
            in (True, [SetSelectedSubreddits defaultSubs, FetchFromSubreddits defaultSubs])))"


section \<open>The queue\<close>

text \<open>The fields of a song that the queue reads.\<close>

record song =
  song_id :: string
  song_title :: string
  song_link :: string

text \<open>
  Modelled from the spec: the store's \<^verbatim>\<open>addSongs\<close> (\<^verbatim>\<open>@/lib/store\<close>), which is not among the
  sources. The specification calls it \<^verbatim>\<open>append(songs)\<close>: it "deduplicates against existing
  ids before appending". A song of the page is kept when its id is not an id of the queue.
\<close>

definition addSongs :: "song list \<Rightarrow> song list \<Rightarrow> song list" where
  "addSongs queue songs =
     queue @ filter (\<lambda>s. song_id s \<notin> set (map song_id queue)) songs"


section \<open>The listing proxy (GET of the proxy route)\<close>

text \<open>The reply of the route: the status and the JSON body.\<close>

datatype reply_body = Payload json | ErrorJson string | NoBody

record reply =
  reply_status :: nat
  reply_body :: reply_body

text \<open>
  Time is counted in milliseconds from the moment the route sets its 30 second timer.
  What the upstream does with one \<^verbatim>\<open>fetch\<close>: it never settles; or it settles after some
  time with an outcome, and the body of a response can then be read to its end; or it
  sends the head of a response after some time and never completes the body, so that
  \<^verbatim>\<open>fetch\<close> resolves and \<^verbatim>\<open>response.text()\<close> and \<^verbatim>\<open>response.json()\<close> never settle.
\<close>

datatype upstream = Hangs | Settles nat fetch_outcome | Stalls nat http_response

definition body_never_ends :: "upstream \<Rightarrow> bool" where
  "body_never_ends u = (case u of Stalls _ _ \<Rightarrow> True | _ \<Rightarrow> False)"

definition TIMEOUT_MS :: nat where
  "TIMEOUT_MS = 30000"

definition CACHE_TTL :: nat where
  "CACHE_TTL = 60 * 1000"

text \<open>
  One \<^verbatim>\<open>await fetch(redditUrl, {signal: controller.signal, ...})\<close> begun at time \<open>now\<close>: the time
  at which it settles and how. The timer aborts the controller at \<open>TIMEOUT_MS\<close>; a fetch
  whose signal is aborted rejects with an AbortError, at once when the signal was aborted
  before the call.
\<close>

definition timed_fetch :: "nat \<Rightarrow> upstream \<Rightarrow> nat \<times> fetch_outcome" where
  "timed_fetch now u =
     (if TIMEOUT_MS \<le> now then (now, Rejects abort_error)
      else (case u of
              Hangs \<Rightarrow> (TIMEOUT_MS, Rejects abort_error)
            | Settles d outcome \<Rightarrow>
                if now + d < TIMEOUT_MS then (now + d, outcome)
                else (TIMEOUT_MS, Rejects abort_error)
            | Stalls d r \<Rightarrow>
                if now + d < TIMEOUT_MS then (now + d, Resolves r)
                else (TIMEOUT_MS, Rejects abort_error)))"

text \<open>
  The variables of the retry loop, with the clock, the delays waited, the number of
  fetches made so far, and whether the body of \<^verbatim>\<open>response\<close> is one that never ends.
\<close>

record loop_state =
  clock :: nat
  response :: "http_response option"
  lastError :: "js_error option"
  delays :: "nat list"
  attempts :: nat
  body_stalled :: bool

definition loop_init :: loop_state where
  "loop_init = \<lparr>clock = 0, response = None, lastError = None, delays = [], attempts = 0,
                body_stalled = False\<rparr>"

text \<open>
  How one round of the loop ends: with \<^verbatim>\<open>continue\<close> (or by falling out of the inner
  \<^verbatim>\<open>catch\<close>), with \<^verbatim>\<open>break\<close>, or with the \<^verbatim>\<open>throw\<close> of the inner \<^verbatim>\<open>catch\<close>.
\<close>

datatype flow = Continue | Break | Throw js_error

text \<open>
  The body of the loop for one value of \<^verbatim>\<open>attempt\<close>; \<open>up attempt\<close> is what the upstream
  does with the fetch of that round.
\<close>

definition loop_body :: "(nat \<Rightarrow> upstream) \<Rightarrow> nat \<Rightarrow> loop_state \<Rightarrow> flow \<times> loop_state" where
  "loop_body up attempt s =
     (let s1 = (if attempt > 0
                then s\<lparr>clock := clock s + attempt * 1000,
                       delays := delays s @ [attempt * 1000]\<rparr>
                else s);
          settled = timed_fetch (clock s1) (up attempt);
          s2 = s1\<lparr>clock := fst settled, attempts := Suc (attempts s1)\<rparr>
      in case snd settled of
           Resolves r \<Rightarrow>
             (let s3 = s2\<lparr>response := Some r, body_stalled := body_never_ends (up attempt)\<rparr>
              in if response_ok r then (Break, s3)
                 else if resp_status r = 403 \<and> attempt < 2 then (Continue, s3)
                 else (Break, s3))
         | Rejects error \<Rightarrow>
             if attempt = 2 then (Throw error, s2\<lparr>lastError := Some error\<rparr>)
             else (Continue, s2\<lparr>lastError := Some error\<rparr>))"

datatype loop_exit = LoopThrows js_error | LoopEnds

text \<open>\<^verbatim>\<open>for (let attempt = 0; attempt < 3; attempt++) { ... }\<close>\<close>

function retry_loop :: "(nat \<Rightarrow> upstream) \<Rightarrow> nat \<Rightarrow> loop_state \<Rightarrow> loop_exit \<times> loop_state" where
  "retry_loop up attempt s =
     (if attempt < 3 then
        (case loop_body up attempt s of
           (Continue, s') \<Rightarrow> retry_loop up (attempt + 1) s'
         | (Break, s') \<Rightarrow> (LoopEnds, s')
         | (Throw error, s') \<Rightarrow> (LoopThrows error, s'))
      else (LoopEnds, s))"
  by pat_completeness auto
termination
  by (relation "measure (\<lambda>(up, attempt, s). 3 - attempt)") auto

declare retry_loop.simps [simp del]

text \<open>The outer \<^verbatim>\<open>catch\<close> block.\<close>

definition catch_reply :: "js_error \<Rightarrow> reply" where
  "catch_reply error =
     (if err_name error = ''AbortError''
      then \<lparr>reply_status = 504,
            reply_body = ErrorJson ''Request timeout - Reddit API took too long to respond''\<rparr>
      else if err_code error = Some ''ENOTFOUND'' \<or> err_code error = Some ''ECONNREFUSED''
      then \<lparr>reply_status = 503,
            reply_body = ErrorJson ''Network error - Could not reach Reddit API''\<rparr>
      else if err_name error = ''SyntaxError''
      then \<lparr>reply_status = 500,
            reply_body = ErrorJson ''Invalid JSON response from Reddit API''\<rparr>
      else \<lparr>reply_status = 500, reply_body = ErrorJson ''Internal server error''\<rparr>)"

text \<open>
  \<^verbatim>\<open>redditPath\<close> and \<^verbatim>\<open>redditUrl\<close>; \<open>query\<close> is \<^verbatim>\<open>searchParams.toString()\<close>.
\<close>

definition redditUrl :: "string list \<Rightarrow> string \<Rightarrow> string" where
  "redditUrl pathSegments query =
     (let joined = join_with ''/'' pathSegments;
          n = length joined;
          redditPath = (if 5 \<le> n \<and> drop (n - 5) joined = ''.json''
                        then take (n - 5) joined else joined)
      in ''https://www.reddit.com/'' @ redditPath @ ''.json''
         @ (if query \<noteq> [] then ''?'' @ query else []))"

text \<open>
  The cache maps a URL to the data and the time it was stored. \<open>date_now\<close> is \<^verbatim>\<open>Date.now()\<close>
  when the request comes in; the successful reply is stored under the time at which the
  loop ended.
\<close>

type_synonym cache = "string \<rightharpoonup> json \<times> nat"

definition cached_fresh :: "cache \<Rightarrow> string \<Rightarrow> nat \<Rightarrow> json option" where
  "cached_fresh c url date_now =
     (case c url of
        None \<Rightarrow> None
      | Some (data, timestamp) \<Rightarrow>
          if int date_now - int timestamp < int CACHE_TTL then Some data else None)"

text \<open>
  The part of the route after the loop, for a loop that ended without throwing. The route
  calls \<^verbatim>\<open>clearTimeout(timeoutId)\<close> before it awaits \<^verbatim>\<open>response.text()\<close> or \<^verbatim>\<open>response.json()\<close>,
  so no timer of the route is running while the body is read: with a body that never ends
  the route never replies, which is the result \<open>None\<close>.
\<close>

definition after_loop ::
  "cache \<Rightarrow> string \<Rightarrow> nat \<Rightarrow> loop_state \<Rightarrow> reply option \<times> cache" where
  "after_loop c url date_now s =
     (case response s of
        None \<Rightarrow>
          (Some (catch_reply (case lastError s of Some e \<Rightarrow> e | None \<Rightarrow> plain_error)), c)
      | Some r \<Rightarrow>
          if body_stalled s then (None, c)
          else if \<not> response_ok r
          then (Some \<lparr>reply_status = resp_status r,
                      reply_body = ErrorJson ''Failed to fetch from Reddit API''\<rparr>, c)
          else
            (case resp_json r of
               None \<Rightarrow> (Some (catch_reply syntax_error), c)
             | Some data \<Rightarrow>
                 if \<not> truthy data \<or> \<not> typeof_object data
                 then (Some \<lparr>reply_status = 500,
                             reply_body = ErrorJson ''Invalid response from Reddit API''\<rparr>, c)
                 else (Some \<lparr>reply_status = 200, reply_body = Payload data\<rparr>,
                       c(url \<mapsto> (data, date_now + clock s)))))"

text \<open>The route: its reply, if it ever replies, and the cache afterwards.\<close>

definition proxy_GET ::
  "string \<Rightarrow> string list \<Rightarrow> string \<Rightarrow> nat \<Rightarrow> cache \<Rightarrow> (nat \<Rightarrow> upstream)
     \<Rightarrow> reply option \<times> cache" where
  "proxy_GET method pathSegments query date_now c up =
     (if method = ''OPTIONS'' then (Some \<lparr>reply_status = 200, reply_body = NoBody\<rparr>, c)
      else
        (let url = redditUrl pathSegments query
         in case cached_fresh c url date_now of
              Some data \<Rightarrow> (Some \<lparr>reply_status = 200, reply_body = Payload data\<rparr>, c)
            | None \<Rightarrow>
                (case retry_loop up 0 loop_init of
                   (LoopThrows error, s) \<Rightarrow> (Some (catch_reply error), c)
                 | (LoopEnds, s) \<Rightarrow> after_loop c url date_now s)))"


section \<open>Notions used in the statements\<close>

text \<open>
  How a fetch can settle once its signal has been aborted: \<^verbatim>\<open>fetch\<close> rejects with an
  AbortError, or a response that was already under way is delivered.
\<close>

definition settles_aborted :: "fetch_outcome \<Rightarrow> bool" where
  "settles_aborted outcome =
     (case outcome of Resolves _ \<Rightarrow> True | Rejects e \<Rightarrow> err_name e = ''AbortError'')"

text \<open>
  A request-level error: the fetch rejects with something other than an AbortError, the
  status is not 2xx, the body is not JSON, the document is null, or it has a truthy
  \<^verbatim>\<open>error\<close> field.
\<close>

definition request_error :: "fetch_outcome \<Rightarrow> bool" where
  "request_error outcome =
     (case outcome of
        Rejects e \<Rightarrow> err_name e \<noteq> ''AbortError''
      | Resolves r \<Rightarrow>
          \<not> response_ok r
          \<or> (case resp_json r of
                None \<Rightarrow> True
              | Some data \<Rightarrow> data = JNull \<or> truthy (js_get data ''error'')))"

text \<open>The store calls that write the queue.\<close>

definition writes_queue :: "'song store_call \<Rightarrow> bool" where
  "writes_queue c = (case c of SetSongs _ \<Rightarrow> True | AddSongs _ \<Rightarrow> True | _ \<Rightarrow> False)"

text \<open>The wait before the fetch of a round, and the waits still ahead from a round on.\<close>

definition backoff :: "nat \<Rightarrow> nat" where
  "backoff attempt = (if attempt > 0 then attempt * 1000 else 0)"

definition backoff_left :: "nat \<Rightarrow> nat" where
  "backoff_left attempt = (if attempt \<le> 1 then 3000 else if attempt = 2 then 2000 else 0)"

text \<open>A 2xx response whose body the route refuses: not JSON, or JSON that is no object.\<close>

definition payload_malformed :: "http_response \<Rightarrow> bool" where
  "payload_malformed r =
     (case resp_json r of
        None \<Rightarrow> True
      | Some data \<Rightarrow> \<not> truthy data \<or> \<not> typeof_object data)"

text \<open>
  An upstream that answers every fetch after \<open>d\<close> milliseconds: with status 403 for the
  first \<open>k\<close> fetches, with status 200 and the document \<open>data\<close> from then on.
\<close>

definition forbidden_then_ok :: "nat \<Rightarrow> nat \<Rightarrow> json \<Rightarrow> nat \<Rightarrow> upstream" where
  "forbidden_then_ok k d data n =
     Settles d (Resolves (if n < k then \<lparr>resp_status = 403, resp_json = None\<rparr>
                          else \<lparr>resp_status = 200, resp_json = Some data\<rparr>))"


section \<open>Progress percentage\<close>

lemma clamp_percentage:
  "\<exists>p. js_max (Num 0) (js_min (Num 100) (Num c)) = Num p \<and> 0 \<le> p \<and> p \<le> 100"
  by (simp add: js_max_def js_min_def js_isNaN_def)

text \<open>
  C6. Whatever \<^verbatim>\<open>currentTime\<close> and \<^verbatim>\<open>seekingTime\<close> are (NaN, negative and infinite values
  included), the displayed percentage is a finite number between 0 and 100, and it is
  exactly 0 when no song is loaded, when \<^verbatim>\<open>duration\<close> is 0, and when \<^verbatim>\<open>duration\<close> is NaN or
  infinite.
\<close>

theorem displayPercentage_zero_and_range:
  "(\<exists>p. displayPercentage currentSong duration seekingTime currentTime = Num p
        \<and> 0 \<le> p \<and> p \<le> 100)
   \<and> (currentSong = None \<or> duration = Num 0 \<or> \<not> js_isFinite duration
        \<longrightarrow> displayPercentage currentSong duration seekingTime currentTime = Num 0)"
proof (intro conjI impI)
  let ?dt = "displayTime seekingTime currentTime"
  show "\<exists>p. displayPercentage currentSong duration seekingTime currentTime = Num p
          \<and> 0 \<le> p \<and> p \<le> 100"
  proof (cases "currentSong \<noteq> None \<and> js_gt duration (Num 0) \<and> \<not> js_isNaN duration
                  \<and> \<not> js_isNaN ?dt \<and> js_isFinite duration \<and> js_isFinite ?dt")
    case True
    then obtain d t where d: "duration = Num d" and t: "?dt = Num t"
      by (auto simp: js_isFinite_def split: jsnum.splits)
    from True d have "0 < d"
      by (simp add: js_gt_def)
    then have "js_mul (js_div ?dt duration) (Num 100) = Num (t / d * 100)"
      by (simp add: d t)
    with True clamp_percentage [of "t / d * 100"] show ?thesis
      by (simp add: displayPercentage_def Let_def)
  next
    case False
    then show ?thesis
      by (auto simp: displayPercentage_def Let_def)
  qed
next
  assume "currentSong = None \<or> duration = Num 0 \<or> \<not> js_isFinite duration"
  then show "displayPercentage currentSong duration seekingTime currentTime = Num 0"
    by (auto simp: displayPercentage_def Let_def js_gt_def)
qed

theorem displayPercentage_zero_and_range_witness:
  "displayPercentage (Some (1::nat)) (Num 0) None NaN = Num 0
   \<and> displayPercentage (Some (1::nat)) NaN (Some (Num 7)) (Num 3) = Num 0
   \<and> displayPercentage (None :: nat option) (Num 10) None (Num 3) = Num 0
   \<and> (\<exists>p. displayPercentage (Some (1::nat)) (Num 10) None (Num 3) = Num p \<and> 0 \<le> p \<and> p \<le> 100)"
  using displayPercentage_zero_and_range [of "Some (1::nat)" "Num 0" None NaN]
    displayPercentage_zero_and_range [of "Some (1::nat)" NaN "Some (Num 7)" "Num 3"]
    displayPercentage_zero_and_range [of "None :: nat option" "Num 10" None "Num 3"]
    displayPercentage_zero_and_range [of "Some (1::nat)" "Num 10" None "Num 3"]
  by (simp add: js_isFinite_def)


section \<open>Seeking\<close>

text \<open>
  For the three players that count seconds, the seek lands on the target and a player that
  paused itself is started again when playback was on.
\<close>

lemma seek_youtube_lands:
  "position (seek_youtube pauses wasPlaying t p) = t
   \<and> (wasPlaying \<longrightarrow> \<not> is_paused (seek_youtube pauses wasPlaying t p))"
  by (simp add: seek_youtube_def player_seek_def player_play_def getPlayerState_def Let_def)

lemma seek_vimeo_lands:
  "position (seek_vimeo pauses wasPlaying t p) = t
   \<and> (wasPlaying \<longrightarrow> \<not> is_paused (seek_vimeo pauses wasPlaying t p))"
  by (simp add: seek_vimeo_def player_seek_def player_play_def Let_def)

lemma seek_mp3_lands:
  "position (seek_mp3 pauses wasPlaying t p) = t
   \<and> (wasPlaying \<longrightarrow> \<not> is_paused (seek_mp3 pauses wasPlaying t p))"
  by (simp add: seek_mp3_def player_seek_def player_play_def Let_def)

text \<open>
  The SoundCloud branch resumes playback too, but the position it asks for is the target
  divided by the widget's length in milliseconds and multiplied by 1000: at most one
  millisecond into the track.
\<close>

lemma seek_soundcloud_position:
  "position (seek_soundcloud pauses wasPlaying t w)
     = js_mul (js_div t (media_duration w)) (Num 1000)
   \<and> (wasPlaying \<longrightarrow> \<not> is_paused (seek_soundcloud pauses wasPlaying t w))"
  by (simp add: seek_soundcloud_def player_seek_def player_play_def Let_def)

text \<open>
  The adapter itself converts seconds to milliseconds when it seeks a reused widget, and
  that seek lands on the target.
\<close>

lemma reuse_widget_lands:
  assumes "0 < c"
  shows "soundcloud_seconds (reuse_widget pauses (props\<lparr>prop_currentTime := Num c\<rparr>) w) = Num c"
  using assms
  by (simp add: soundcloud_seconds_def reuse_widget_def player_seek_def player_play_def
      player_pause_def js_gt_def Let_def)

text \<open>
  C2, at a failing input. The store's duration is 120 seconds, the song plays, and the
  click is in the middle of a bar 100 pixels wide, so the target is 60 seconds. The only
  handle is a SoundCloud widget of length 120000 milliseconds. After \<^verbatim>\<open>handleSeek\<close> the widget
  still plays, but it stands at half a millisecond, which the adapter reports as 0.0005
  seconds; the optimistic value 60 is not caught up with.
\<close>

theorem handleSeek_soundcloud_misses:
  "handleSeek False (Num 120) True (Num 50) (Num 100)
     \<lparr>youtubePlayer = None, vimeoPlayer = None, mp3Audio = None,
      soundcloudWidget =
        Some \<lparr>position = Num 0, is_paused = False, media_duration = Num 120000\<rparr>\<rparr>
   = (Some (Num 60),
      \<lparr>youtubePlayer = None, vimeoPlayer = None, mp3Audio = None,
       soundcloudWidget =
         Some \<lparr>position = Num (1 / 2), is_paused = False, media_duration = Num 120000\<rparr>\<rparr>)
   \<and> soundcloud_seconds \<lparr>position = Num (1 / 2), is_paused = False, media_duration = Num 120000\<rparr>
       = Num (1 / 2000)
   \<and> \<not> caught_up (Num (1 / 2000)) (Num 60)"
  by (simp add: handleSeek_def seek_soundcloud_def player_seek_def player_play_def js_eq_def
      js_isNaN_def js_max_def js_min_def soundcloud_seconds_def caught_up_def Let_def)


section \<open>Reports of the SoundCloud adapter\<close>

text \<open>
  The progress handler is guarded: when the published URL is not the URL of the song the
  handler was made for, it reports neither a time nor a duration.
\<close>

lemma on_PLAY_PROGRESS_stale:
  "soundcloudUrl \<noteq> Some (song_url props) \<Longrightarrow>
     on_PLAY_PROGRESS props soundcloudUrl currentPosition duration = []"
  by (simp add: on_PLAY_PROGRESS_def Let_def)

text \<open>
  C1, at a failing input. The handler was made for the song at \<^verbatim>\<open>.../a/x\<close>; the published URL
  is by now \<^verbatim>\<open>.../b/y\<close>, and the store stands at index 1 of 3 songs. The FINISHED handler
  still reports \<^verbatim>\<open>onStateChange(false)\<close> and calls the store's \<^verbatim>\<open>forward\<close>.
\<close>

theorem on_FINISHED_stale_report:
  "on_FINISHED
     \<lparr>song_url = ''https://soundcloud.com/a/x'', onStateChange = True, onTimeUpdate = True,
      onDurationChange = True, prop_volume = Num 100, prop_isPlaying = True,
      prop_currentTime = Num 0\<rparr>
     (Some ''https://soundcloud.com/b/y'') 1 3
   = [OnStateChange False, StoreForward]"
  by (simp add: on_FINISHED_def call_onStateChange_def)

subsection \<open>The end of a playthrough\<close>


text \<open>
  When the effect runs a second time before a widget is published (\<^verbatim>\<open>currentTime\<close> has
  changed in between), a second handler is bound, and one FINISHED event then advances the
  store twice.
\<close>

lemma FINISHED_bound_twice:
  "fire_FINISHED
     (mount_effect False None True
        \<lparr>song_url = ''https://soundcloud.com/a/x'', onStateChange = True, onTimeUpdate = True,
         onDurationChange = True, prop_volume = Num 100, prop_isPlaying = True,
         prop_currentTime = Num 1\<rparr>
        (mount_effect False None True
           \<lparr>song_url = ''https://soundcloud.com/a/x'', onStateChange = True,
            onTimeUpdate = True, onDurationChange = True, prop_volume = Num 100,
            prop_isPlaying = True, prop_currentTime = Num 0\<rparr> []))
     (Some ''https://soundcloud.com/a/x'') 0 3
   = ([OnStateChange False, StoreForward, OnStateChange False, StoreForward], 2)"
  by (simp add: mount_effect_def initializePlayer_def on_FINISHED_def call_onStateChange_def
      forward_def)




section \<open>Cancelled fetches\<close>

text \<open>A call that has just been started has its controller in the ref.\<close>

lemma start_call_ref:
  "start_call sv h c = (h', a, calls, req) \<Longrightarrow> abortControllerRef h' = Some a"
  by (cases c)
    (auto simp: start_call_def fetchSearch_start_def fetchMusicForSubreddits_start_def
      begin_request_def Let_def)

text \<open>Starting a call aborts the controller that is in the ref.\<close>

lemma begin_request_aborts:
  "abortControllerRef h = Some a \<Longrightarrow> a \<in> aborted (fst (begin_request h))"
  by (simp add: begin_request_def Let_def)

lemma start_call_aborts:
  assumes "abortControllerRef h = Some a"
    and "start_call sv h c = (h', b, calls, req)"
  shows "a \<in> aborted h'"
proof -
  have "h' = fst (begin_request h)"
    using assms(2)
    by (cases c)
      (auto simp: start_call_def fetchSearch_start_def fetchMusicForSubreddits_start_def
        split: prod.splits)
  with assms(1) show ?thesis
    by (simp add: begin_request_aborts)
qed

lemma try_body_aborted:
  "settles_aborted outcome \<Longrightarrow>
     try_body flt parse True after outcome = ([], Inr [])
     \<or> (\<exists>e. try_body flt parse True after outcome = ([], Inl e) \<and> err_name e = ''AbortError'')"
  by (cases outcome) (simp_all add: settles_aborted_def try_body_def)

lemma settle_aborted:
  assumes "a \<in> aborted h" and "settles_aborted outcome"
  shows "fetchMusicForSubreddits_settle flt parse h a subreddits after outcome
           = (h, [], Returns [])"
    and "fetchSearch_settle flt parse h a query after outcome = (h, [], Returns [])"
  using assms try_body_aborted [OF assms(2), of flt parse after]
  by (auto simp: fetchMusicForSubreddits_settle_def fetchSearch_settle_def finally_block_def)

text \<open>
  C3. Fetch A is in flight: its controller \<open>a\<close> is the one in the ref. Fetch B is started
  (either fetch function, any arguments), which leaves the hook in state \<open>h'\<close>. Whenever A's
  fetch settles afterwards, in a state \<open>h''\<close> in which the controllers aborted so far are
  still aborted, A makes no store call at all (no \<^verbatim>\<open>setSongs\<close>, \<^verbatim>\<open>addSongs\<close>, \<^verbatim>\<open>setAfter\<close>,
  \<^verbatim>\<open>setLoading\<close> or \<^verbatim>\<open>addMessage\<close>), leaves the hook state as it is, and returns the empty
  list without throwing. This holds for both fetch functions in the role of A.
\<close>

theorem superseded_fetch_is_discarded:
  assumes "abortControllerRef h = Some a"
    and "start_call sv h c = (h', b, calls, req)"
    and "aborted h' \<subseteq> aborted h''"
    and "settles_aborted outcome"
  shows "fetchMusicForSubreddits_settle flt parse h'' a subreddits after outcome
           = (h'', [], Returns [])
         \<and> fetchSearch_settle flt parse h'' a query after outcome = (h'', [], Returns [])"
proof -
  from assms(1,2) have "a \<in> aborted h'"
    by (rule start_call_aborts)
  with assms(3) have "a \<in> aborted h''"
    by blast
  then show ?thesis
    using assms(4) by (simp add: settle_aborted)
qed

theorem superseded_fetch_is_discarded_witness:
  "fetchMusicForSubreddits_settle (\<lambda>xs. xs) (\<lambda>j. Some j)
     \<lparr>abortControllerRef = Some 1, aborted = {0}, next_controller = 2\<rparr> 0 [''music''] None
     (Resolves \<lparr>resp_status = 200,
                resp_json = Some (JObj [(''data'', JObj [(''children'', JArr [JObj []])])])\<rparr>)
   = (\<lparr>abortControllerRef = Some 1, aborted = {0}, next_controller = 2\<rparr>, [], Returns [])
   \<and> fetchSearch_settle (\<lambda>xs. xs) (\<lambda>j. Some j)
       \<lparr>abortControllerRef = Some 1, aborted = {0}, next_controller = 2\<rparr> 0 ''jazz'' None
       (Resolves \<lparr>resp_status = 200,
                  resp_json = Some (JObj [(''data'', JObj [(''children'', JArr [JObj []])])])\<rparr>)
     = (\<lparr>abortControllerRef = Some 1, aborted = {0}, next_controller = 2\<rparr>, [], Returns [])"
proof -
  let ?sv = "\<lparr>selectedSubreddits = [], sortMethod = ''hot'', topMethod = ''week'',
              searchQuery = []\<rparr>"
  let ?h = "\<lparr>abortControllerRef = Some 0, aborted = {}, next_controller = 1\<rparr>"
  let ?h' = "\<lparr>abortControllerRef = Some 1, aborted = {0}, next_controller = 2\<rparr>"
  have 1: "abortControllerRef ?h = Some 0"
    by simp
  have 2: "start_call ?sv ?h (FetchMusicForSubreddits [''jazz''] None)
             = (?h', 1, [SetLoading True], listing_request ?sv [''jazz''] None)"
    by (simp add: start_call_def fetchMusicForSubreddits_start_def begin_request_def Let_def)
  have 3: "aborted ?h' \<subseteq> aborted ?h'"
    by simp
  have 4: "settles_aborted (Resolves \<lparr>resp_status = 200,
                resp_json = Some (JObj [(''data'', JObj [(''children'', JArr [JObj []])])])\<rparr>)"
    by (simp add: settles_aborted_def)
  show ?thesis
    by (rule superseded_fetch_is_discarded [OF 1 2 3 4])
qed


section \<open>Failed fetches\<close>

text \<open>The request-level errors are exactly the outcomes on which the try block throws.\<close>

lemma request_error_iff:
  "request_error outcome \<longleftrightarrow>
     (\<exists>e. snd (try_body flt parse False after outcome) = Inl e \<and> err_name e \<noteq> ''AbortError'')"
  by (cases outcome)
    (auto simp: request_error_def try_body_def plain_error_def syntax_error_def type_error_def
      Let_def split: option.splits)

lemma try_body_throws_silently:
  "snd (try_body flt parse signal_aborted after outcome) = Inl e \<Longrightarrow>
     fst (try_body flt parse signal_aborted after outcome) = []"
  by (cases outcome) (auto simp: try_body_def Let_def split: option.splits if_splits)

text \<open>
  C8. A call of \<^verbatim>\<open>fetchMusicForSubreddits\<close> that was not cancelled and ends in a
  request-level error, on the first page as on a later one: its only store calls are one
  \<^verbatim>\<open>addMessage\<close> and \<^verbatim>\<open>setLoading(false)\<close>, so none of them writes the queue; the message is the
  error message whose single button calls \<^verbatim>\<open>fetchMusicForSubreddits\<close> again with the
  subreddits and the cursor of the failed call; and the error is thrown on to the caller.
\<close>

theorem listing_error_keeps_queue:
  assumes "a \<notin> aborted h" and "request_error outcome"
  shows "\<exists>e. fetchMusicForSubreddits_settle flt parse h a subreddits after outcome
            = (h\<lparr>abortControllerRef := None\<rparr>,
               [AddMessage (failed_message subreddits after), SetLoading False],
               Throws e)
          \<and> filter writes_queue
               [AddMessage (failed_message subreddits after), SetLoading False] = []
          \<and> msg_type (failed_message subreddits after) = ''error''
          \<and> map btn_callback (msg_buttons (failed_message subreddits after))
              = [FetchMusicForSubreddits subreddits after]"
proof -
  from assms(2) obtain e where e: "snd (try_body flt parse False after outcome) = Inl e"
      and n: "err_name e \<noteq> ''AbortError''"
    using request_error_iff [of outcome flt parse after] by blast
  from e have "fst (try_body flt parse False after outcome) = []"
    by (rule try_body_throws_silently)
  with e have "try_body flt parse False after outcome = ([], Inl e)"
    by (simp add: prod_eq_iff)
  with assms(1) n show ?thesis
    by (auto simp: fetchMusicForSubreddits_settle_def finally_block_def failed_message_def
        writes_queue_def)
qed

theorem listing_error_keeps_queue_witness:
  "\<exists>e. fetchMusicForSubreddits_settle (\<lambda>xs. xs) (\<lambda>j. Some j)
          \<lparr>abortControllerRef = Some 0, aborted = {}, next_controller = 1\<rparr> 0
          [''music'', ''jazz''] (Some ''t3_abc'')
          (Resolves \<lparr>resp_status = 503, resp_json = None\<rparr>)
        = (\<lparr>abortControllerRef = None, aborted = {}, next_controller = 1\<rparr>,
           [AddMessage (failed_message [''music'', ''jazz''] (Some ''t3_abc'')),
            SetLoading False],
           Throws e)"
proof -
  have 1: "0 \<notin> aborted \<lparr>abortControllerRef = Some 0, aborted = {}, next_controller = 1\<rparr>"
    by simp
  have 2: "request_error (Resolves \<lparr>resp_status = 503, resp_json = None\<rparr>)"
    by (simp add: request_error_def response_ok_def)
  from listing_error_keeps_queue [OF 1 2, of "\<lambda>xs. xs" "\<lambda>j. Some j" "[''music'', ''jazz'']"
      "Some ''t3_abc''"]
  show ?thesis
    by auto
qed


section \<open>Appending to the queue\<close>

lemma addSongs_ids:
  "set (map song_id (addSongs queue songs)) = set (map song_id queue) \<union> set (map song_id songs)"
  by (auto simp: addSongs_def)

lemma filter_nothing: "(\<And>x. x \<in> set xs \<Longrightarrow> \<not> P x) \<Longrightarrow> filter P xs = []"
  by (induction xs) auto

text \<open>
  C9. Appending a page deduplicates against the ids of the queue: appending the same page a
  second time changes nothing, and an id that the queue already has occurs in the result
  as often as it did in the queue.
\<close>

theorem addSongs_idempotent:
  "addSongs (addSongs queue songs) songs = addSongs queue songs
   \<and> (\<forall>i \<in> set (map song_id queue).
        count_list (map song_id (addSongs queue songs)) i = count_list (map song_id queue) i)"
proof
  have "filter (\<lambda>s. song_id s \<notin> set (map song_id (addSongs queue songs))) songs = []"
    by (rule filter_nothing) (auto simp: addSongs_def)
  then show "addSongs (addSongs queue songs) songs = addSongs queue songs"
    by (simp add: addSongs_def [of "addSongs queue songs"])
next
  show "\<forall>i \<in> set (map song_id queue).
        count_list (map song_id (addSongs queue songs)) i = count_list (map song_id queue) i"
  proof
    fix i
    assume i: "i \<in> set (map song_id queue)"
    let ?new = "filter (\<lambda>s. song_id s \<notin> set (map song_id queue)) songs"
    have "i \<notin> set (map song_id ?new)"
    proof
      assume "i \<in> set (map song_id ?new)"
      then obtain s :: song where "song_id s \<notin> song_id ` set queue" and "i = song_id s"
        by auto
      moreover from i have "i \<in> song_id ` set queue"
        by simp
      ultimately show False
        by simp
    qed
    then have "count_list (map song_id ?new) i = 0"
      by (simp add: count_list_0_iff)
    then show "count_list (map song_id (addSongs queue songs)) i
                 = count_list (map song_id queue) i"
      by (simp add: addSongs_def)
  qed
qed

theorem addSongs_idempotent_witness:
  "addSongs
     (addSongs [\<lparr>song_id = ''a'', song_title = ''A'', song_link = ''u''\<rparr>]
        [\<lparr>song_id = ''a'', song_title = ''A'', song_link = ''u''\<rparr>,
         \<lparr>song_id = ''b'', song_title = ''B'', song_link = ''v''\<rparr>])
     [\<lparr>song_id = ''a'', song_title = ''A'', song_link = ''u''\<rparr>,
      \<lparr>song_id = ''b'', song_title = ''B'', song_link = ''v''\<rparr>]
   = [\<lparr>song_id = ''a'', song_title = ''A'', song_link = ''u''\<rparr>,
      \<lparr>song_id = ''b'', song_title = ''B'', song_link = ''v''\<rparr>]
   \<and> count_list
        (map song_id
           (addSongs [\<lparr>song_id = ''a'', song_title = ''A'', song_link = ''u''\<rparr>]
              [\<lparr>song_id = ''a'', song_title = ''A'', song_link = ''u''\<rparr>,
               \<lparr>song_id = ''b'', song_title = ''B'', song_link = ''v''\<rparr>]))
        ''a'' = 1"
proof -
  let ?q = "[\<lparr>song_id = ''a'', song_title = ''A'', song_link = ''u''\<rparr>]"
  let ?p = "[\<lparr>song_id = ''a'', song_title = ''A'', song_link = ''u''\<rparr>,
             \<lparr>song_id = ''b'', song_title = ''B'', song_link = ''v''\<rparr>]"
  have once: "addSongs ?q ?p = ?p"
    by (simp add: addSongs_def)
  have mem: "''a'' \<in> set (map song_id ?q)"
    by simp
  from addSongs_idempotent [of ?q ?p] mem
  have "addSongs (addSongs ?q ?p) ?p = addSongs ?q ?p"
    and "count_list (map song_id (addSongs ?q ?p)) ''a'' = count_list (map song_id ?q) ''a''"
    by blast+
  then show ?thesis
    by (simp add: once)
qed


section \<open>The default subreddit\<close>

text \<open>
  C10. With no search query and no selected subreddit, \<^verbatim>\<open>fetchMusic\<close> calls
  \<^verbatim>\<open>fetchMusicForSubreddits\<close> with the list of the one name \<^verbatim>\<open>listentothis\<close>, and that call
  sends the request for \<^verbatim>\<open>/api/get/r/listentothis/<sort>.json\<close>. On mount, when the path
  and the query string yield no subreddit and none is saved, the effect selects that
  same list and fetches it.
\<close>

theorem default_subreddits:
  "(searchQuery sv = [] \<and> selectedSubreddits sv = [] \<longrightarrow>
      fetchMusic sv after = FetchMusicForSubreddits [''listentothis''] after
      \<and> (\<exists>h' c. start_call sv h (fetchMusic sv after)
            = (h', c, [SetLoading True],
               \<lparr>req_url = ''/api/get/r/listentothis/'' @ sortMethod sv @ ''.json'',
                req_params = common_params sv after\<rparr>)))
   \<and> (path_subs pathname = [] \<and> query_subs rParam = [] \<and> saved = [] \<longrightarrow>
        initialize_from_url False pathname rParam saved
          = (True, [SetSelectedSubreddits [''listentothis''],
                    FetchFromSubreddits [''listentothis'']]))"
proof (intro conjI impI)
  assume a: "searchQuery sv = [] \<and> selectedSubreddits sv = []"
  then show f: "fetchMusic sv after = FetchMusicForSubreddits [''listentothis''] after"
    by (simp add: fetchMusic_def)
  show "\<exists>h' c. start_call sv h (fetchMusic sv after)
            = (h', c, [SetLoading True],
               \<lparr>req_url = ''/api/get/r/listentothis/'' @ sortMethod sv @ ''.json'',
                req_params = common_params sv after\<rparr>)"
    by (simp add: f start_call_def fetchMusicForSubreddits_start_def listing_request_def
        Let_def split: prod.splits)
next
  assume "path_subs pathname = [] \<and> query_subs rParam = [] \<and> saved = []"
  then show "initialize_from_url False pathname rParam saved
          = (True, [SetSelectedSubreddits [''listentothis''],
                    FetchFromSubreddits [''listentothis'']])"
    by (simp add: initialize_from_url_def Let_def)
qed

lemmas string_eval =
  path_subs_def query_subs_def path_match_def parse_subs_def trim_def toLowerCase_def
  is_space_def lower_char_def

theorem default_subreddits_witness:
  "fetchMusic \<lparr>selectedSubreddits = [], sortMethod = ''hot'', topMethod = ''week'',
               searchQuery = []\<rparr> None
     = FetchMusicForSubreddits [''listentothis''] None
   \<and> initialize_from_url False ''/r/ + '' (Some ''+'') []
       = (True, [SetSelectedSubreddits [''listentothis''],
                 FetchFromSubreddits [''listentothis'']])"
proof -
  let ?sv = "\<lparr>selectedSubreddits = [], sortMethod = ''hot'', topMethod = ''week'',
              searchQuery = []\<rparr>"
  have 1: "searchQuery ?sv = [] \<and> selectedSubreddits ?sv = []"
    by simp
  have 2: "path_subs ''/r/ + '' = [] \<and> query_subs (Some ''+'') = [] \<and> ([] :: string list) = []"
    by (simp add: string_eval)
  from default_subreddits [where sv = ?sv and after = None and pathname = "''/r/ + ''"
      and rParam = "Some ''+''" and saved = "[]"] 1 2
  show ?thesis
    by blast
qed


section \<open>The retry loop of the proxy\<close>

subsection \<open>One round\<close>

lemma timed_fetch_clock: "fst (timed_fetch now u) \<le> max now TIMEOUT_MS"
  by (cases u) (auto simp: timed_fetch_def)

lemma timed_fetch_late:
  "TIMEOUT_MS \<le> fst (timed_fetch now u) \<Longrightarrow> snd (timed_fetch now u) = Rejects abort_error"
  by (cases u) (auto simp: timed_fetch_def)

lemma timed_fetch_resolves:
  "snd (timed_fetch now u) = Resolves r \<Longrightarrow> fst (timed_fetch now u) < TIMEOUT_MS"
  by (cases u) (auto simp: timed_fetch_def abort_error_def split: if_splits)

lemma loop_body_counts:
  assumes "loop_body up attempt s = (f, s')"
  shows "attempts s' = Suc (attempts s)"
    and "delays s' = delays s @ (if attempt > 0 then [attempt * 1000] else [])"
    and "clock s' \<le> max (clock s + backoff attempt) TIMEOUT_MS"
  using assms timed_fetch_clock [of "clock s + backoff attempt" "up attempt"]
  by (auto simp: loop_body_def backoff_def Let_def split: fetch_outcome.splits if_splits)

lemma loop_body_flow:
  assumes "loop_body up attempt s = (f, s')"
  shows "f = Continue \<Longrightarrow> attempt \<noteq> 2"
    and "f = Break \<Longrightarrow> response s' \<noteq> None \<and> clock s' < TIMEOUT_MS"
    and "TIMEOUT_MS \<le> clock s' \<Longrightarrow> attempt = 2 \<Longrightarrow> f = Throw abort_error"
  using assms timed_fetch_late [of "clock s + backoff attempt" "up attempt"]
  by (auto simp: loop_body_def backoff_def Let_def timed_fetch_resolves
      split: fetch_outcome.splits if_splits)

lemma loop_body_throws:
  "loop_body up attempt s = (Throw e, s') \<Longrightarrow> attempt = 2"
  by (auto simp: loop_body_def Let_def split: fetch_outcome.splits if_splits)

lemma body_ok:
  assumes "up attempt = Settles d (Resolves r)" and "response_ok r"
    and "clock s + backoff attempt + d < TIMEOUT_MS"
  shows "\<exists>s'. loop_body up attempt s = (Break, s') \<and> response s' = Some r
              \<and> \<not> body_stalled s' \<and> attempts s' = Suc (attempts s)"
  using assms
  by (auto simp: loop_body_def backoff_def timed_fetch_def body_never_ends_def Let_def
      split: if_splits)

lemma body_forbidden_last:
  assumes "up 2 = Settles d (Resolves r)" and "resp_status r = 403"
    and "clock s + backoff 2 + d < TIMEOUT_MS"
  shows "\<exists>s'. loop_body up 2 s = (Break, s') \<and> response s' = Some r
              \<and> \<not> body_stalled s' \<and> attempts s' = Suc (attempts s)"
  using assms
  by (auto simp: loop_body_def backoff_def timed_fetch_def body_never_ends_def response_ok_def
      Let_def split: if_splits)

lemma body_forbidden:
  assumes "attempt < 2" and "up attempt = Settles d (Resolves r)" and "resp_status r = 403"
    and "clock s + backoff attempt + d < TIMEOUT_MS"
  shows "\<exists>s'. loop_body up attempt s = (Continue, s')
              \<and> clock s' = clock s + backoff attempt + d \<and> attempts s' = Suc (attempts s)"
  using assms
  by (auto simp: loop_body_def backoff_def timed_fetch_def response_ok_def Let_def
      split: if_splits)

subsection \<open>The loop\<close>

lemma retry_loop_3: "retry_loop up 3 s = (LoopEnds, s)"
  by (subst retry_loop.simps) simp

lemma retry_loop_step:
  assumes "attempt < 3" and "loop_body up attempt s = (f, s')"
  shows "retry_loop up attempt s =
           (case f of Continue \<Rightarrow> retry_loop up (Suc attempt) s'
                    | Break \<Rightarrow> (LoopEnds, s')
                    | Throw e \<Rightarrow> (LoopThrows e, s'))"
  using assms by (subst retry_loop.simps) (simp split: flow.splits)

text \<open>The same equation in a form that evaluates the loop on a given upstream.\<close>

lemma retry_loop_unfold:
  "attempt < 3 \<Longrightarrow>
     retry_loop up attempt s =
       (case loop_body up attempt s of
          (Continue, s') \<Rightarrow> retry_loop up (attempt + 1) s'
        | (Break, s') \<Rightarrow> (LoopEnds, s')
        | (Throw error, s') \<Rightarrow> (LoopThrows error, s'))"
  by (subst retry_loop.simps) simp

lemmas loop_eval =
  retry_loop_unfold loop_body_def loop_init_def timed_fetch_def TIMEOUT_MS_def response_ok_def
  Let_def

lemma retry_loop_attempts:
  "attempts (snd (retry_loop up attempt s)) \<le> attempts s + (3 - attempt)"
proof (induction up attempt s rule: retry_loop.induct)
  case (1 up attempt s)
  show ?case
  proof (cases "attempt < 3")
    case False
    then show ?thesis by (subst retry_loop.simps) simp
  next
    case True
    obtain f s' where b: "loop_body up attempt s = (f, s')"
      by (cases "loop_body up attempt s")
    note n = loop_body_counts(1) [OF b]
    show ?thesis
    proof (cases f)
      case Continue
      with "1.IH" True b
      have "attempts (snd (retry_loop up (attempt + 1) s')) \<le> attempts s' + (3 - (attempt + 1))"
        by simp
      with True b Continue n show ?thesis
        by (simp add: retry_loop_step)
    qed (use True b n in \<open>simp_all add: retry_loop_step\<close>)
  qed
qed

text \<open>
  The loop runs the rounds from \<open>attempt\<close> up to some \<open>k\<close>, one fetch in each, and before
  the fetch of round \<open>i\<close> it waits \<open>i * 1000\<close> milliseconds, except in round 0.
\<close>

lemma retry_loop_rounds:
  "attempt \<le> 3 \<Longrightarrow>
   \<exists>k. attempt \<le> k \<and> k \<le> 3 \<and> (attempt < 3 \<longrightarrow> attempt < k)
     \<and> attempts (snd (retry_loop up attempt s)) = attempts s + (k - attempt)
     \<and> delays (snd (retry_loop up attempt s))
         = delays s @ map (\<lambda>i. i * 1000) (filter (\<lambda>i. i > 0) [attempt..<k])"
proof (induction up attempt s rule: retry_loop.induct)
  case (1 up attempt s)
  show ?case
  proof (cases "attempt < 3")
    case False
    with "1.prems" have "attempt = 3" by simp
    then show ?thesis
      by (auto simp: retry_loop_3 intro!: exI [of _ 3])
  next
    case True
    obtain f s' where b: "loop_body up attempt s = (f, s')"
      by (cases "loop_body up attempt s")
    note n = loop_body_counts(1) [OF b]
    note d = loop_body_counts(2) [OF b]
    have here: "delays s'
        = delays s @ map (\<lambda>i. i * 1000) (filter (\<lambda>i. i > 0) [attempt..<Suc attempt])"
      using d by simp
    show ?thesis
    proof (cases f)
      case Continue
      from True have le: "attempt + 1 \<le> 3"
        by simp
      note ih = "1.IH" [OF True b [symmetric] Continue le]
      then obtain k where k0: "attempt + 1 \<le> k" "k \<le> 3"
          "attempts (snd (retry_loop up (attempt + 1) s')) = attempts s' + (k - (attempt + 1))"
          "delays (snd (retry_loop up (attempt + 1) s'))
             = delays s' @ map (\<lambda>i. i * 1000) (filter (\<lambda>i. i > 0) [attempt + 1..<k])"
        by blast
      then have k: "Suc attempt \<le> k" "k \<le> 3"
          "attempts (snd (retry_loop up (attempt + 1) s')) = attempts s' + (k - Suc attempt)"
          "delays (snd (retry_loop up (attempt + 1) s'))
             = delays s' @ map (\<lambda>i. i * 1000) (filter (\<lambda>i. i > 0) [Suc attempt..<k])"
        by simp_all
      have "[attempt..<k] = attempt # [Suc attempt..<k]"
        using k(1) by (simp add: upt_conv_Cons)
      with k n d True b Continue show ?thesis
        by (intro exI [of _ k]) (auto simp add: retry_loop_step)
    next
      case Break
      with True b n here show ?thesis
        by (intro exI [of _ "Suc attempt"]) (simp add: retry_loop_step)
    next
      case (Throw e)
      with True b n here show ?thesis
        by (intro exI [of _ "Suc attempt"]) (simp add: retry_loop_step)
    qed
  qed
qed

lemma positive_from_one: "filter (\<lambda>i. i > 0) [0..<k] = [1..<k]"
proof (cases k)
  case 0
  then show ?thesis by simp
next
  case (Suc j)
  have "filter (\<lambda>i. 0 < i) [Suc 0..<Suc j] = [Suc 0..<Suc j]"
    by (rule filter_True) auto
  then show ?thesis
    using Suc by (simp add: upt_conv_Cons)
qed

text \<open>
  From the start of the loop: between one and three fetches, and the waits are exactly
  those before the second and the third fetch made.
\<close>

lemma loop_waits_init:
  "1 \<le> attempts (snd (retry_loop up 0 loop_init))
   \<and> attempts (snd (retry_loop up 0 loop_init)) \<le> 3
   \<and> delays (snd (retry_loop up 0 loop_init))
       = map (\<lambda>i. i * 1000) [1..<attempts (snd (retry_loop up 0 loop_init))]"
proof -
  obtain k where k: "0 < k" "k \<le> 3"
      "attempts (snd (retry_loop up 0 loop_init)) = attempts loop_init + (k - 0)"
      "delays (snd (retry_loop up 0 loop_init))
         = delays loop_init @ map (\<lambda>i. i * 1000) (filter (\<lambda>i. i > 0) [0..<k])"
    using retry_loop_rounds [of 0 up loop_init] by auto
  then show ?thesis
    by (simp add: loop_init_def positive_from_one)
qed

lemma backoff_left_step:
  "attempt < 3 \<Longrightarrow> backoff attempt + backoff_left (Suc attempt) = backoff_left attempt"
  by (auto simp: backoff_def backoff_left_def)

text \<open>The loop ends at most 3000 milliseconds after the timer has run out.\<close>

lemma retry_loop_clock:
  "clock (snd (retry_loop up attempt s)) \<le> max (clock s) TIMEOUT_MS + backoff_left attempt"
proof (induction up attempt s rule: retry_loop.induct)
  case (1 up attempt s)
  show ?case
  proof (cases "attempt < 3")
    case False
    then show ?thesis by (subst retry_loop.simps) simp
  next
    case True
    obtain f s' where b: "loop_body up attempt s = (f, s')"
      by (cases "loop_body up attempt s")
    from loop_body_counts(3) [OF b] backoff_left_step [OF True]
    have here: "max (clock s') TIMEOUT_MS + backoff_left (Suc attempt)
                  \<le> max (clock s) TIMEOUT_MS + backoff_left attempt"
      by (simp add: max_def split: if_splits)
    show ?thesis
    proof (cases f)
      case Continue
      with "1.IH" True b
      have "clock (snd (retry_loop up (attempt + 1) s'))
              \<le> max (clock s') TIMEOUT_MS + backoff_left (attempt + 1)"
        by simp
      with True b Continue here show ?thesis
        by (simp add: retry_loop_step)
    qed (use True b here in \<open>simp_all add: retry_loop_step\<close>)
  qed
qed

text \<open>If the timer has run out when the loop ends, the loop ends by throwing the AbortError.\<close>

lemma retry_loop_timeout:
  "attempt < 3 \<Longrightarrow> TIMEOUT_MS \<le> clock (snd (retry_loop up attempt s)) \<Longrightarrow>
     fst (retry_loop up attempt s) = LoopThrows abort_error"
proof (induction up attempt s rule: retry_loop.induct)
  case (1 up attempt s)
  from "1.prems" have lt: "attempt < 3" by simp
  obtain f s' where b: "loop_body up attempt s = (f, s')"
    by (cases "loop_body up attempt s")
  note fl = loop_body_flow [OF b]
  show ?case
  proof (cases f)
    case Continue
    with fl(1) lt have "attempt + 1 < 3" by simp
    moreover from "1.prems"(2) lt b Continue
    have "TIMEOUT_MS \<le> clock (snd (retry_loop up (attempt + 1) s'))"
      by (simp add: retry_loop_step)
    ultimately have "fst (retry_loop up (attempt + 1) s') = LoopThrows abort_error"
      using "1.IH" lt b Continue by simp
    with lt b Continue show ?thesis
      by (simp add: retry_loop_step)
  next
    case Break
    with "1.prems"(2) lt b fl(2) show ?thesis
      by (simp add: retry_loop_step)
  next
    case (Throw e)
    with b have "attempt = 2"
      by (simp add: loop_body_throws)
    with "1.prems"(2) lt b Throw fl(3) show ?thesis
      by (simp add: retry_loop_step)
  qed
qed

text \<open>A loop that ends without throwing has a response: the check after the loop never fires.\<close>

lemma retry_loop_response:
  "attempt < 3 \<Longrightarrow> fst (retry_loop up attempt s) = LoopEnds \<Longrightarrow>
     response (snd (retry_loop up attempt s)) \<noteq> None"
proof (induction up attempt s rule: retry_loop.induct)
  case (1 up attempt s)
  from "1.prems" have lt: "attempt < 3" by simp
  obtain f s' where b: "loop_body up attempt s = (f, s')"
    by (cases "loop_body up attempt s")
  note fl = loop_body_flow [OF b]
  show ?case
  proof (cases f)
    case Continue
    with fl(1) lt have "attempt + 1 < 3" by simp
    moreover from "1.prems"(2) lt b Continue
    have "fst (retry_loop up (attempt + 1) s') = LoopEnds"
      by (simp add: retry_loop_step)
    ultimately have "response (snd (retry_loop up (attempt + 1) s')) \<noteq> None"
      using "1.IH" lt b Continue by simp
    with lt b Continue show ?thesis
      by (simp add: retry_loop_step)
  next
    case Break
    with lt b fl(2) show ?thesis
      by (simp add: retry_loop_step)
  next
    case (Throw e)
    with "1.prems"(2) lt b show ?thesis
      by (simp add: retry_loop_step)
  qed
qed

lemma loop_ok_now:
  assumes "attempt < 3" and "up attempt = Settles d (Resolves r)" and "response_ok r"
    and "clock s + backoff attempt + d < TIMEOUT_MS"
  shows "\<exists>s'. retry_loop up attempt s = (LoopEnds, s') \<and> response s' = Some r
              \<and> \<not> body_stalled s' \<and> attempts s' = Suc (attempts s)"
  using body_ok [of up attempt d r s] assms by (auto simp: retry_loop_step)

lemma loop_forbidden_last:
  assumes "up 2 = Settles d (Resolves r)" and "resp_status r = 403"
    and "clock s + backoff 2 + d < TIMEOUT_MS"
  shows "\<exists>s'. retry_loop up 2 s = (LoopEnds, s') \<and> response s' = Some r
              \<and> \<not> body_stalled s' \<and> attempts s' = Suc (attempts s)"
  using body_forbidden_last [of up d r s] assms by (auto simp: retry_loop_step)

lemma loop_forbidden_step:
  assumes "attempt < 2" and "up attempt = Settles d (Resolves r)" and "resp_status r = 403"
    and "clock s + backoff attempt + d < TIMEOUT_MS"
  shows "\<exists>s'. retry_loop up attempt s = retry_loop up (Suc attempt) s'
              \<and> clock s' = clock s + backoff attempt + d \<and> attempts s' = Suc (attempts s)"
  using body_forbidden [of attempt up d r s] assms by (auto simp: retry_loop_step)


section \<open>Retries\<close>

text \<open>
  The claim C4 fails at three 403 answers followed by a 200: the loop makes three fetches,
  the third 403 ends it, and the caller gets the status 403 with an error object.
\<close>

theorem three_forbidden_counterexample:
  "fst (proxy_GET ''GET'' [''r'', ''listentothis'', ''hot.json''] ''limit=100'' 0 Map.empty
         (forbidden_then_ok 3 100 (JObj [(''kind'', JStr ''Listing'')])))
   = Some \<lparr>reply_status = 403, reply_body = ErrorJson ''Failed to fetch from Reddit API''\<rparr>"
  by (simp add: proxy_GET_def cached_fresh_def after_loop_def forbidden_then_ok_def
      body_never_ends_def loop_eval)

text \<open>How the loop runs on answers that arrive before the timer runs out.\<close>

lemma loop_recovers:
  assumes "k \<le> 2"
    and "\<forall>i<k. \<exists>r. up i = Settles (lat i) (Resolves r) \<and> resp_status r = 403"
    and "up k = Settles (lat k) (Resolves good)"
    and "response_ok good"
    and "(\<Sum>i\<le>k. lat i + i * 1000) < TIMEOUT_MS"
  shows "\<exists>s. retry_loop up 0 loop_init = (LoopEnds, s) \<and> response s = Some good
             \<and> \<not> body_stalled s \<and> attempts s = k + 1"
proof -
  consider "k = 0" | "k = 1" | "k = 2"
    using assms(1) by linarith
  then show ?thesis
  proof cases
    case 1
    with assms show ?thesis
      using loop_ok_now [of 0 up "lat 0" good loop_init]
      by (simp add: loop_init_def backoff_def)
  next
    case 2
    with assms(2) obtain r0 where r0: "up 0 = Settles (lat 0) (Resolves r0)" "resp_status r0 = 403"
      by auto
    from 2 assms(5) have t: "lat 0 + (lat 1 + 1000) < TIMEOUT_MS"
      by (simp add: atMost_Suc)
    with r0 obtain s1 where s1: "retry_loop up 0 loop_init = retry_loop up (Suc 0) s1"
        "clock s1 = lat 0" "attempts s1 = 1"
      using loop_forbidden_step [of 0 up "lat 0" r0 loop_init]
      by (auto simp: loop_init_def backoff_def)
    from 2 assms(3,4) t s1(2,3) show ?thesis
      using loop_ok_now [of "Suc 0" up "lat 1" good s1] by (simp add: backoff_def s1(1))
  next
    case 3
    from 3 assms(2) have "\<exists>r. up 0 = Settles (lat 0) (Resolves r) \<and> resp_status r = 403"
      and "\<exists>r. up (Suc 0) = Settles (lat (Suc 0)) (Resolves r) \<and> resp_status r = 403"
      by simp_all
    then obtain r0 r1 where r0: "up 0 = Settles (lat 0) (Resolves r0)" "resp_status r0 = 403"
        and r1: "up (Suc 0) = Settles (lat (Suc 0)) (Resolves r1)" "resp_status r1 = 403"
      by blast
    from 3 assms(5) have t: "lat 0 + (lat (Suc 0) + 1000) + (lat 2 + 2000) < TIMEOUT_MS"
      by (simp add: atMost_Suc numeral_2_eq_2)
    with r0 obtain s1 where s1: "retry_loop up 0 loop_init = retry_loop up (Suc 0) s1"
        "clock s1 = lat 0" "attempts s1 = 1"
      using loop_forbidden_step [of 0 up "lat 0" r0 loop_init]
      by (auto simp: loop_init_def backoff_def)
    with r1 t obtain s2 where s2: "retry_loop up (Suc 0) s1 = retry_loop up (Suc (Suc 0)) s2"
        "clock s2 = lat 0 + 1000 + lat (Suc 0)" "attempts s2 = 2"
      using loop_forbidden_step [of "Suc 0" up "lat (Suc 0)" r1 s1]
      by (auto simp: backoff_def)
    have two: "Suc (Suc 0) = 2" by simp
    from 3 assms(3,4) t s2(2,3) show ?thesis
      using loop_ok_now [of 2 up "lat 2" good s2] by (simp add: backoff_def s1(1) s2(1) two)
  qed
qed

lemma loop_gives_up:
  assumes "\<forall>i<3. \<exists>r. up i = Settles (lat i) (Resolves r) \<and> resp_status r = 403"
    and "(\<Sum>i\<le>2. lat i + i * 1000) < TIMEOUT_MS"
  shows "\<exists>s r. retry_loop up 0 loop_init = (LoopEnds, s) \<and> response s = Some r
             \<and> resp_status r = 403 \<and> \<not> body_stalled s \<and> attempts s = 3"
proof -
  from assms(1) have "\<exists>r. up 0 = Settles (lat 0) (Resolves r) \<and> resp_status r = 403"
    and "\<exists>r. up (Suc 0) = Settles (lat (Suc 0)) (Resolves r) \<and> resp_status r = 403"
    and "\<exists>r. up 2 = Settles (lat 2) (Resolves r) \<and> resp_status r = 403"
    by simp_all
  then obtain r0 r1 r2 where r0: "up 0 = Settles (lat 0) (Resolves r0)" "resp_status r0 = 403"
      and r1: "up (Suc 0) = Settles (lat (Suc 0)) (Resolves r1)" "resp_status r1 = 403"
      and r2: "up 2 = Settles (lat 2) (Resolves r2)" "resp_status r2 = 403"
    by blast
  from assms(2) have t: "lat 0 + (lat (Suc 0) + 1000) + (lat 2 + 2000) < TIMEOUT_MS"
    by (simp add: atMost_Suc numeral_2_eq_2)
  with r0 obtain s1 where s1: "retry_loop up 0 loop_init = retry_loop up (Suc 0) s1"
      "clock s1 = lat 0" "attempts s1 = 1"
    using loop_forbidden_step [of 0 up "lat 0" r0 loop_init]
    by (auto simp: loop_init_def backoff_def)
  with r1 t obtain s2 where s2: "retry_loop up (Suc 0) s1 = retry_loop up (Suc (Suc 0)) s2"
      "clock s2 = lat 0 + 1000 + lat (Suc 0)" "attempts s2 = 2"
    using loop_forbidden_step [of "Suc 0" up "lat (Suc 0)" r1 s1]
    by (auto simp: backoff_def)
  have two: "Suc (Suc 0) = 2" by simp
  from r2 t s2(2,3) show ?thesis
    using loop_forbidden_last [of up "lat 2" r2 s2] by (auto simp: backoff_def s1(1) s2(1) two)
qed

text \<open>
  C4, as amended. Whatever the upstream does, the loop makes at least one and at most three
  fetches, and its waits are exactly 1000 milliseconds before the second fetch made and
  2000 before the third. For a request that is not served from the cache and answers that
  fit, with the waits, in the 30 seconds of the timer: if the first \<open>k\<close> fetches, for \<open>k\<close>
  at most 2, are answered with 403 and the next one with a 200 whose body is a JSON object
  or array, the reply is that body with status 200, after \<open>k + 1\<close> fetches; and if the
  first three fetches are answered with 403, the reply is an error object with status
  403, after three fetches.
\<close>

theorem retries_bounded_and_two_forbidden_recover:
  "1 \<le> attempts (snd (retry_loop up 0 loop_init))
   \<and> attempts (snd (retry_loop up 0 loop_init)) \<le> 3
   \<and> delays (snd (retry_loop up 0 loop_init))
       = map (\<lambda>i. i * 1000) [1..<attempts (snd (retry_loop up 0 loop_init))]
   \<and> (k \<le> 2
        \<and> (\<forall>i<k. \<exists>r. up i = Settles (lat i) (Resolves r) \<and> resp_status r = 403)
        \<and> up k = Settles (lat k) (Resolves good)
        \<and> resp_status good = 200 \<and> resp_json good = Some data
        \<and> truthy data \<and> typeof_object data
        \<and> (\<Sum>i\<le>k. lat i + i * 1000) < TIMEOUT_MS
        \<and> verb \<noteq> ''OPTIONS''
        \<and> cached_fresh c (redditUrl pathSegments query) date_now = None
      \<longrightarrow> fst (proxy_GET verb pathSegments query date_now c up)
            = Some \<lparr>reply_status = 200, reply_body = Payload data\<rparr>
          \<and> attempts (snd (retry_loop up 0 loop_init)) = k + 1)
   \<and> ((\<forall>i<3. \<exists>r. up i = Settles (lat i) (Resolves r) \<and> resp_status r = 403)
        \<and> (\<Sum>i\<le>2. lat i + i * 1000) < TIMEOUT_MS
        \<and> verb \<noteq> ''OPTIONS''
        \<and> cached_fresh c (redditUrl pathSegments query) date_now = None
      \<longrightarrow> fst (proxy_GET verb pathSegments query date_now c up)
            = Some \<lparr>reply_status = 403,
                    reply_body = ErrorJson ''Failed to fetch from Reddit API''\<rparr>
          \<and> attempts (snd (retry_loop up 0 loop_init)) = 3)"
proof -
  have recover: "fst (proxy_GET verb pathSegments query date_now c up)
            = Some \<lparr>reply_status = 200, reply_body = Payload data\<rparr>
          \<and> attempts (snd (retry_loop up 0 loop_init)) = k + 1"
    if a: "k \<le> 2
        \<and> (\<forall>i<k. \<exists>r. up i = Settles (lat i) (Resolves r) \<and> resp_status r = 403)
        \<and> up k = Settles (lat k) (Resolves good)
        \<and> resp_status good = 200 \<and> resp_json good = Some data
        \<and> truthy data \<and> typeof_object data
        \<and> (\<Sum>i\<le>k. lat i + i * 1000) < TIMEOUT_MS
        \<and> verb \<noteq> ''OPTIONS''
        \<and> cached_fresh c (redditUrl pathSegments query) date_now = None"
  proof -
    from a have ok: "response_ok good"
      by (simp add: response_ok_def)
    with a obtain s where "retry_loop up 0 loop_init = (LoopEnds, s)" "response s = Some good"
        "\<not> body_stalled s" "attempts s = k + 1"
      using loop_recovers [of k up lat good] by blast
    with a ok show ?thesis
      by (simp add: proxy_GET_def after_loop_def Let_def)
  qed
  have give_up: "fst (proxy_GET verb pathSegments query date_now c up)
            = Some \<lparr>reply_status = 403,
                    reply_body = ErrorJson ''Failed to fetch from Reddit API''\<rparr>
          \<and> attempts (snd (retry_loop up 0 loop_init)) = 3"
    if a: "(\<forall>i<3. \<exists>r. up i = Settles (lat i) (Resolves r) \<and> resp_status r = 403)
        \<and> (\<Sum>i\<le>2. lat i + i * 1000) < TIMEOUT_MS
        \<and> verb \<noteq> ''OPTIONS''
        \<and> cached_fresh c (redditUrl pathSegments query) date_now = None"
  proof -
    from a obtain s r where "retry_loop up 0 loop_init = (LoopEnds, s)" "response s = Some r"
        "resp_status r = 403" "\<not> body_stalled s" "attempts s = 3"
      using loop_gives_up [of up lat] by blast
    with a show ?thesis
      by (simp add: proxy_GET_def after_loop_def response_ok_def Let_def)
  qed
  from loop_waits_init [of up] recover give_up show ?thesis
    by blast
qed

theorem retries_bounded_and_two_forbidden_recover_witness:
  "fst (proxy_GET ''GET'' [''r'', ''listentothis'', ''hot.json''] ''limit=100'' 0 Map.empty
         (forbidden_then_ok 2 100 (JObj [(''kind'', JStr ''Listing'')])))
     = Some \<lparr>reply_status = 200, reply_body = Payload (JObj [(''kind'', JStr ''Listing'')])\<rparr>
   \<and> delays (snd (retry_loop (forbidden_then_ok 2 100 (JObj [(''kind'', JStr ''Listing'')])) 0
                    loop_init))
       = [1000, 2000]
   \<and> fst (proxy_GET ''GET'' [''r'', ''listentothis'', ''hot.json''] ''limit=100'' 0 Map.empty
         (forbidden_then_ok 5 100 (JObj [(''kind'', JStr ''Listing'')])))
     = Some \<lparr>reply_status = 403, reply_body = ErrorJson ''Failed to fetch from Reddit API''\<rparr>"
proof -
  let ?data = "JObj [(''kind'', JStr ''Listing'')]"
  let ?good = "\<lparr>resp_status = 200, resp_json = Some ?data\<rparr>"
  let ?p = "[''r'', ''listentothis'', ''hot.json'']"
  let ?up = "forbidden_then_ok 2 100 ?data"
  let ?down = "forbidden_then_ok 5 100 ?data"
  have h: "(2::nat) \<le> 2
        \<and> (\<forall>i<2. \<exists>r. ?up i = Settles ((\<lambda>i. 100) i) (Resolves r) \<and> resp_status r = 403)
        \<and> ?up 2 = Settles ((\<lambda>i. 100) 2) (Resolves ?good)
        \<and> resp_status ?good = 200 \<and> resp_json ?good = Some ?data
        \<and> truthy ?data \<and> typeof_object ?data
        \<and> (\<Sum>i\<le>2. (\<lambda>i. 100) i + i * 1000) < TIMEOUT_MS
        \<and> ''GET'' \<noteq> ''OPTIONS''
        \<and> cached_fresh Map.empty (redditUrl ?p ''limit=100'') 0 = None"
    by (simp add: forbidden_then_ok_def truthy_def typeof_object_def TIMEOUT_MS_def
        cached_fresh_def atMost_Suc numeral_2_eq_2)
  have g: "(\<forall>i<3. \<exists>r. ?down i = Settles ((\<lambda>i. 100) i) (Resolves r) \<and> resp_status r = 403)
        \<and> (\<Sum>i\<le>2. (\<lambda>i. 100) i + i * 1000) < TIMEOUT_MS
        \<and> ''GET'' \<noteq> ''OPTIONS''
        \<and> cached_fresh Map.empty (redditUrl ?p ''limit=100'') 0 = None"
    by (simp add: forbidden_then_ok_def TIMEOUT_MS_def cached_fresh_def atMost_Suc
        numeral_2_eq_2)
  note T = retries_bounded_and_two_forbidden_recover [where lat = "\<lambda>i. 100" and verb = "''GET''"
      and c = Map.empty and pathSegments = ?p and query = "''limit=100''" and date_now = 0]
  from T [where up = ?up and k = 2 and good = ?good and data = ?data] h
  have 1: "fst (proxy_GET ''GET'' ?p ''limit=100'' 0 Map.empty ?up)
             = Some \<lparr>reply_status = 200, reply_body = Payload ?data\<rparr>"
    and n: "attempts (snd (retry_loop ?up 0 loop_init)) = 2 + 1"
    and d: "delays (snd (retry_loop ?up 0 loop_init))
             = map (\<lambda>i. i * 1000) [1..<attempts (snd (retry_loop ?up 0 loop_init))]"
    by blast+
  from d n have 2: "delays (snd (retry_loop ?up 0 loop_init)) = [1000, 2000]"
    by (simp add: upt_conv_Cons)
  from T [where up = ?down and k = 0 and good = ?good and data = ?data] g
  have 3: "fst (proxy_GET ''GET'' ?p ''limit=100'' 0 Map.empty ?down)
             = Some \<lparr>reply_status = 403,
                      reply_body = ErrorJson ''Failed to fetch from Reddit API''\<rparr>"
    by blast
  from 1 2 3 show ?thesis
    by simp
qed


section \<open>Error replies of the proxy\<close>

lemma catch_reply_status:
  "reply_status (catch_reply e) =
     (if err_name e = ''AbortError'' then 504
      else if err_code e = Some ''ENOTFOUND'' \<or> err_code e = Some ''ECONNREFUSED'' then 503
      else 500)
   \<and> (\<exists>m. reply_body (catch_reply e) = ErrorJson m)"
  by (simp add: catch_reply_def)

lemma after_loop_reply:
  assumes "response s = Some r" and "\<not> body_stalled s"
  shows "fst (after_loop c url date_now s) =
           Some (if \<not> response_ok r
                 then \<lparr>reply_status = resp_status r,
                       reply_body = ErrorJson ''Failed to fetch from Reddit API''\<rparr>
                 else if resp_json r = None then catch_reply syntax_error
                 else if payload_malformed r
                 then \<lparr>reply_status = 500,
                       reply_body = ErrorJson ''Invalid response from Reddit API''\<rparr>
                 else \<lparr>reply_status = 200, reply_body = Payload (the (resp_json r))\<rparr>)"
  using assms by (auto simp: after_loop_def payload_malformed_def split: option.splits)

text \<open>
  What the route replies to a request that is not served from the cache, by the way its
  loop ends. The loop is over at most 3000 milliseconds after the 30 second timer has run
  out, and if the timer has run out by then the reply has status 504. An error thrown by
  the loop is answered by the \<^verbatim>\<open>catch\<close> block: 504 for an AbortError, 503 for an error whose
  own \<^verbatim>\<open>code\<close> is ENOTFOUND or ECONNREFUSED, 500 for any other. A response that is not 2xx is
  answered with its status, a 2xx response with a body that is not JSON or no JSON object
  with 500, each with an error object; any other 2xx response with its document and
  status 200. When the body of the response never ends, the route does not reply.
\<close>

lemma proxy_reply_classes:
  fixes up :: "nat \<Rightarrow> upstream" and verb :: string and pathSegments :: "string list"
    and query :: string and date_now :: nat and c :: cache
  defines "final \<equiv> retry_loop up 0 loop_init"
  defines "answer \<equiv> fst (proxy_GET verb pathSegments query date_now c up)"
  assumes "verb \<noteq> ''OPTIONS''"
    and "cached_fresh c (redditUrl pathSegments query) date_now = None"
  shows "clock (snd final) \<le> TIMEOUT_MS + 3000"
    and "TIMEOUT_MS \<le> clock (snd final) \<Longrightarrow>
           answer = Some \<lparr>reply_status = 504,
             reply_body = ErrorJson ''Request timeout - Reddit API took too long to respond''\<rparr>"
    and "fst final = LoopThrows e \<Longrightarrow> answer = Some (catch_reply e)"
    and "fst final = LoopEnds \<Longrightarrow> response (snd final) \<noteq> None"
    and "fst final = LoopEnds \<Longrightarrow> body_stalled (snd final) \<Longrightarrow> answer = None"
    and "fst final = LoopEnds \<Longrightarrow> \<not> body_stalled (snd final) \<Longrightarrow>
           response (snd final) = Some r \<Longrightarrow> \<not> response_ok r \<Longrightarrow>
           answer = Some \<lparr>reply_status = resp_status r,
                          reply_body = ErrorJson ''Failed to fetch from Reddit API''\<rparr>"
    and "fst final = LoopEnds \<Longrightarrow> \<not> body_stalled (snd final) \<Longrightarrow>
           response (snd final) = Some r \<Longrightarrow> response_ok r \<Longrightarrow> payload_malformed r \<Longrightarrow>
           \<exists>m. answer = Some \<lparr>reply_status = 500, reply_body = ErrorJson m\<rparr>"
    and "fst final = LoopEnds \<Longrightarrow> \<not> body_stalled (snd final) \<Longrightarrow>
           response (snd final) = Some r \<Longrightarrow> response_ok r \<Longrightarrow> \<not> payload_malformed r \<Longrightarrow>
           \<exists>data. resp_json r = Some data
             \<and> answer = Some \<lparr>reply_status = 200, reply_body = Payload data\<rparr>"
proof -
  obtain x s where fin: "retry_loop up 0 loop_init = (x, s)"
    by (cases "retry_loop up 0 loop_init")
  have answer: "answer = (case x of LoopThrows e \<Rightarrow> Some (catch_reply e)
                   | LoopEnds \<Rightarrow> fst (after_loop c (redditUrl pathSegments query) date_now s))"
    using assms(3,4) fin
    by (simp add: answer_def proxy_GET_def Let_def split: loop_exit.splits)
  show "clock (snd final) \<le> TIMEOUT_MS + 3000"
    using retry_loop_clock [of up 0 loop_init]
    by (simp add: final_def loop_init_def backoff_left_def)
  show "answer = Some \<lparr>reply_status = 504,
      reply_body = ErrorJson ''Request timeout - Reddit API took too long to respond''\<rparr>"
    if "TIMEOUT_MS \<le> clock (snd final)"
  proof -
    from that have "fst (retry_loop up 0 loop_init) = LoopThrows abort_error"
      unfolding final_def by (intro retry_loop_timeout) simp_all
    with fin answer show ?thesis
      by (simp add: catch_reply_def abort_error_def)
  qed
  show "answer = Some (catch_reply e)" if "fst final = LoopThrows e"
    using that fin answer by (simp add: final_def)
  show has: "response (snd final) \<noteq> None" if "fst final = LoopEnds"
    using that unfolding final_def by (intro retry_loop_response) simp_all
  show "answer = None" if "fst final = LoopEnds" "body_stalled (snd final)"
    using that has fin answer by (auto simp: final_def after_loop_def)
  show "answer = Some \<lparr>reply_status = resp_status r,
                          reply_body = ErrorJson ''Failed to fetch from Reddit API''\<rparr>"
    if "fst final = LoopEnds" "\<not> body_stalled (snd final)" "response (snd final) = Some r"
      "\<not> response_ok r"
    using that fin answer after_loop_reply [of s r c "redditUrl pathSegments query" date_now]
    by (simp add: final_def)
  show "\<exists>m. answer = Some \<lparr>reply_status = 500, reply_body = ErrorJson m\<rparr>"
    if "fst final = LoopEnds" "\<not> body_stalled (snd final)" "response (snd final) = Some r"
      "response_ok r" "payload_malformed r"
    using that fin answer after_loop_reply [of s r c "redditUrl pathSegments query" date_now]
    by (simp add: final_def catch_reply_def syntax_error_def)
  show "\<exists>data. resp_json r = Some data
             \<and> answer = Some \<lparr>reply_status = 200, reply_body = Payload data\<rparr>"
    if "fst final = LoopEnds" "\<not> body_stalled (snd final)" "response (snd final) = Some r"
      "response_ok r" "\<not> payload_malformed r"
    using that fin answer after_loop_reply [of s r c "redditUrl pathSegments query" date_now]
    by (auto simp: final_def payload_malformed_def split: option.splits)
qed

text \<open>An upstream that never answers is answered with 504, after 33 seconds.\<close>

lemma silent_upstream_gets_504:
  "fst (proxy_GET ''GET'' [''r'', ''music'', ''hot.json''] ''limit=100'' 0 Map.empty (\<lambda>n. Hangs))
     = Some \<lparr>reply_status = 504,
             reply_body = ErrorJson ''Request timeout - Reddit API took too long to respond''\<rparr>
   \<and> clock (snd (retry_loop (\<lambda>n. Hangs) 0 loop_init)) = 33000"
  by (simp add: proxy_GET_def cached_fresh_def catch_reply_def abort_error_def loop_eval)

text \<open>
  An upstream that sends the head of a 200 response and never completes the body: the
  timer is cleared when the loop ends, and the route does not reply.
\<close>

lemma stalled_body_gets_no_reply:
  "fst (proxy_GET ''GET'' [''r'', ''music'', ''hot.json''] ''limit=100'' 0 Map.empty
         (\<lambda>n. Stalls 10 \<lparr>resp_status = 200, resp_json = Some (JObj [])\<rparr>))
     = None"
  by (simp add: proxy_GET_def cached_fresh_def after_loop_def body_never_ends_def loop_eval)

text \<open>
  C5, at a failing input. The host cannot be reached: each fetch of the route rejects after
  10 milliseconds with the runtime's TypeError, which carries the code ENOTFOUND in its
  cause and has no code of its own. The \<^verbatim>\<open>catch\<close> block tests \<^verbatim>\<open>error.code\<close>, so its 503 branch
  is passed over and the reply is the 500 of the last branch.
\<close>

theorem unreachable_upstream_gets_500:
  "fst (proxy_GET ''GET'' [''r'', ''music'', ''hot.json''] ''limit=100'' 0 Map.empty
         (\<lambda>n. Settles 10 (Rejects (fetch_failed ''ENOTFOUND''))))
     = Some \<lparr>reply_status = 500, reply_body = ErrorJson ''Internal server error''\<rparr>"
  by (simp add: proxy_GET_def cached_fresh_def catch_reply_def fetch_failed_def loop_eval)

end
